theory Spec2Isabelle
  imports Complex_Main
begin

section \<open>Data model\<close>

text \<open>
  The three tables of the application (users, expenses, audit logs) as lists of rows, with
  the columns the route handlers read and write. The row timestamps that only the database
  maintains (\<open>updatedAt\<close>) are not part of the model.
\<close>

datatype role = EMPLOYEE | ADMIN

datatype expense_status = PENDING | APPROVED | REJECTED

datatype category = TRAVEL | FOOD | EQUIPMENT | OFFICE_SUPPLIES | SOFTWARE | TRAINING | OTHER

record user =
  u_id :: string
  u_email :: string
  u_password :: string
  u_name :: string
  u_role :: role
  u_createdAt :: int

record expense =
  e_id :: string
  e_amount :: rat
  e_category :: category
  e_date :: int
  e_notes :: "string option"
  e_status :: expense_status
  e_rejectionReason :: "string option"
  e_receiptUrl :: "string option"
  e_userId :: string
  e_createdAt :: int

record auditLog =
  a_id :: string
  a_action :: string
  a_description :: string
  a_timestamp :: int
  a_userId :: string

record db =
  users :: "user list"
  expenses :: "expense list"
  auditLogs :: "auditLog list"

section \<open>Requests, responses and the environment of a handler\<close>

text \<open>\<open>req.user\<close>, as the authentication middleware attaches it to the request.\<close>

record req_user =
  ru_id :: string
  ru_email :: string
  ru_name :: string
  ru_role :: role

text \<open>The \<open>user: {select: {id, name, email}}\<close> relation included in expense rows.\<close>

record user_summary =
  us_id :: string
  us_name :: string
  us_email :: string

type_synonym expense_row = "expense \<times> user_summary option"

record pagination =
  p_page :: int
  p_limit :: int
  p_total :: int
  p_pages :: int

record token_payload =
  t_userId :: string
  t_email :: string
  t_role :: role

text \<open>A user row as the handlers select it for a response: without the password.\<close>

record user_public =
  up_id :: string
  up_email :: string
  up_name :: string
  up_role :: role
  up_createdAt :: int

text \<open>A JavaScript number, as \<open>parseFloat\<close> returns it; finite values are exact rationals.\<close>

datatype number = NaN | Infinity | Neg_Infinity | Num rat

text \<open>\<open>req.file\<close> after the upload middleware: no file, a stored file, or a file it refused.\<close>

datatype upload = No_file | File string | Rejected_file string

text \<open>
  The pagination block of the list handlers that do not validate their query: page and
  limit as \<open>parseInt\<close> gives them (\<open>None\<close> for \<open>NaN\<close>), the number of rows, and the number
  of pages as the division gives it.
\<close>

record raw_pagination =
  rp_page :: "int option"
  rp_limit :: "int option"
  rp_total :: nat
  rp_pages :: number

text \<open>The figures of the analytics responses.\<close>

record summary =
  s_totalExpenses :: nat
  s_pendingExpenses :: nat
  s_approvedExpenses :: nat
  s_rejectedExpenses :: nat
  s_totalAmount :: rat
  s_averageAmount :: rat
  s_approvalRate :: rat

record category_total =
  ct_category :: category
  ct_totalAmount :: rat
  ct_count :: nat

record month_total =
  mt_month :: string
  mt_total :: rat
  mt_count :: nat
  mt_categories :: "(category \<times> rat) list"

record spender =
  sp_user :: "user_summary option"
  sp_totalAmount :: rat
  sp_expenseCount :: nat

text \<open>
  What a failed parse of a zod schema carries: the message of an \<open>Error\<close> thrown by a
  transform, or the paths of the fields zod itself found wrong.
\<close>

datatype validation_error = Thrown string | Zod_issues "string list"

datatype body =
    Error_body string string
  | Validation_body "string list"
  | Expense_list "expense_row list" pagination
  | Expense_message string expense_row
  | Expense_one expense_row
  | Csv_expenses "expense_row list"
  | Csv_auditLogs "(auditLog \<times> user_summary option) list"
  | Forbidden_body
  | Validation_failed_body validation_error
  | Login_body string req_user string
  | Message string
  | Me_body req_user
  | User_message string user_public
  | User_one user_public nat
  | Users_list "(user_public \<times> nat) list" raw_pagination
  | Logs_list "(auditLog \<times> user_summary option) list" raw_pagination
  | Stats_body nat "(string \<times> nat) list" "nat list"
  | Recent_body "(auditLog \<times> user_summary option) list"
  | Summary_body summary "category_total list" "month_total list" "spender list"
  | Categories_body "category_total list" rat
  | Trends_body "month_total list" rat nat number
  | Summary_old_body summary
  | Top_spenders_body "spender list"
  | Health_body int "string option"
  | Route_not_found string

datatype response = Response (status_code: nat) (payload: body)

text \<open>
  What a handler chain does with a request: it sends a response, or passes an error to the
  error-handling middleware (\<open>next(error)\<close>), or sends a response and then throws (the
  export handlers send the file before they write the audit entry).
\<close>

datatype outcome = Sent response | Next_error string | Sent_then_threw response

text \<open>
  The database and library calls of the handlers. Each of them can throw; \<open>fails\<close> says
  which ones do in the run under consideration.
\<close>

datatype call =
    Expense_findMany | Expense_count | Expense_create | Expense_findUnique | Expense_update
  | Expense_aggregate | Expense_groupBy
  | AuditLog_findMany | AuditLog_count | AuditLog_groupBy | AuditLog_create
  | User_findMany | User_count
  | User_findUnique_id | User_findUnique_email | User_create | User_update | User_delete
  | Jwt_sign

text \<open>
  Everything a handler takes from outside the repository: which calls throw, the ids and
  the time the database assigns to a new row, and the library functions (JavaScript's
  \<open>parseInt\<close>, \<open>parseFloat\<close>, \<open>new Date\<close> and number formatting, zod's \<open>datetime\<close> and
  \<open>email\<close> checks, bcrypt, the token signature). \<open>parseDatetime s\<close> is the time value of
  \<open>new Date(s)\<close> when zod accepts \<open>s\<close> as a datetime, and \<open>None\<close> otherwise; \<open>newDate s\<close>
  is the time value of \<open>new Date(s)\<close>, \<open>None\<close> for an invalid date; \<open>parseInt10 s\<close> is
  \<open>parseInt(s, 10)\<close> and \<open>parseInt s\<close> is \<open>parseInt(s)\<close>, \<open>None\<close> for \<open>NaN\<close>; \<open>toNumber s\<close> is
  the number JavaScript's arithmetic takes the string \<open>s\<close> for. The calendar comes from
  outside too: \<open>subtractDays t n\<close> and \<open>subtractMonths t n\<close> are the time values of
  \<open>moment().subtract(n, 'days')\<close> and \<open>moment().subtract(n, 'months')\<close> at time \<open>t\<close> (\<open>n\<close> is
  \<open>None\<close> for \<open>NaN\<close>; the result is \<open>None\<close> for an invalid date), \<open>previousDay t\<close> is the same
  time of day one day before \<open>t\<close>, \<open>monthIndex t\<close> numbers the calendar month in which \<open>t\<close>
  lies and \<open>monthLabel m\<close> is the name of month \<open>m\<close> in the format \<open>MMMM YYYY\<close>. \<open>nodeEnv\<close> is
  the environment variable \<open>NODE_ENV\<close>. \<open>prismaSkip n\<close> and \<open>prismaTake n\<close> are the \<open>skip\<close> and
  the \<open>take\<close> a query runs with when it is given the unvalidated value \<open>n\<close>, and \<open>None\<close> when
  the database client rejects the value and the query throws.
\<close>

record env =
  fails :: "call \<Rightarrow> bool"
  newId :: string
  newAuditId :: string
  now :: int
  parseInt10 :: "string \<Rightarrow> int option"
  parseInt :: "string \<Rightarrow> int option"
  toNumber :: "string \<Rightarrow> number"
  subtractDays :: "int \<Rightarrow> int option \<Rightarrow> int option"
  subtractMonths :: "int \<Rightarrow> int option \<Rightarrow> int option"
  previousDay :: "int \<Rightarrow> int"
  monthIndex :: "int \<Rightarrow> int"
  monthLabel :: "int \<Rightarrow> string"
  nodeEnv :: "string option"
  prismaSkip :: "number \<Rightarrow> nat option"
  prismaTake :: "int option \<Rightarrow> int option"
  parseFloat :: "string \<Rightarrow> number"
  parseDatetime :: "string \<Rightarrow> int option"
  newDate :: "string \<Rightarrow> int option"
  showNumber :: "rat \<Rightarrow> string"
  isEmail :: "string \<Rightarrow> bool"
  bcrypt_hash :: "string \<Rightarrow> string"
  bcrypt_compare :: "string \<Rightarrow> string \<Rightarrow> bool"
  jwt_sign :: "token_payload \<Rightarrow> string"

section \<open>Database operations\<close>

definition user_findUnique_id :: "db \<Rightarrow> string \<Rightarrow> user option" where
  "user_findUnique_id d i = find (\<lambda>u. u_id u = i) (users d)"

definition user_findUnique_email :: "db \<Rightarrow> string \<Rightarrow> user option" where
  "user_findUnique_email d m = find (\<lambda>u. u_email u = m) (users d)"

definition expense_findUnique :: "db \<Rightarrow> string \<Rightarrow> expense option" where
  "expense_findUnique d i = find (\<lambda>e. e_id e = i) (expenses d)"

definition summary_of :: "user \<Rightarrow> user_summary" where
  "summary_of u = \<lparr>us_id = u_id u, us_name = u_name u, us_email = u_email u\<rparr>"

definition include_user :: "db \<Rightarrow> expense \<Rightarrow> expense_row" where
  "include_user d e = (e, map_option summary_of (user_findUnique_id d (e_userId e)))"

definition auditLog_create :: "env \<Rightarrow> db \<Rightarrow> string \<Rightarrow> string \<Rightarrow> string \<Rightarrow> db" where
  "auditLog_create ev d action description userId =
     d\<lparr>auditLogs := auditLogs d @
        [\<lparr>a_id = newAuditId ev, a_action = action, a_description = description,
          a_timestamp = now ev, a_userId = userId\<rparr>]\<rparr>"

text \<open>The \<open>where\<close> object of an expense query.\<close>

record where_clause =
  w_userId :: "string option"
  w_category :: "category option"
  w_status :: "expense_status option"
  w_date_gte :: "int option"
  w_date_lte :: "int option"

definition where_matches :: "where_clause \<Rightarrow> expense \<Rightarrow> bool" where
  "where_matches w e =
     ((case w_userId w of None \<Rightarrow> True | Some u \<Rightarrow> e_userId e = u) \<and>
      (case w_category w of None \<Rightarrow> True | Some c \<Rightarrow> e_category e = c) \<and>
      (case w_status w of None \<Rightarrow> True | Some s \<Rightarrow> e_status e = s) \<and>
      (case w_date_gte w of None \<Rightarrow> True | Some t \<Rightarrow> t \<le> e_date e) \<and>
      (case w_date_lte w of None \<Rightarrow> True | Some t \<Rightarrow> e_date e \<le> t))"

text \<open>\<open>findMany\<close> with \<open>orderBy: {createdAt: 'desc'}\<close>, \<open>skip\<close> and \<open>take\<close>.\<close>

definition expense_findMany_page :: "db \<Rightarrow> where_clause \<Rightarrow> int \<Rightarrow> int \<Rightarrow> expense list" where
  "expense_findMany_page d w skip tk =
     take (nat tk) (drop (nat skip)
       (sort_key (\<lambda>e. - e_createdAt e) (filter (where_matches w) (expenses d))))"

definition expense_count :: "db \<Rightarrow> where_clause \<Rightarrow> int" where
  "expense_count d w = int (length (filter (where_matches w) (expenses d)))"

section \<open>JavaScript numbers and unvalidated paging\<close>

text \<open>
  Subtraction, multiplication and division of JavaScript numbers and \<open>Math.ceil\<close>, for the
  handlers that compute with query strings they have not validated. Finite values are exact
  rationals, and the negative zero is not told from zero.
\<close>

fun js_sub :: "number \<Rightarrow> number \<Rightarrow> number" where
  "js_sub NaN b = NaN"
| "js_sub a NaN = NaN"
| "js_sub (Num x) (Num y) = Num (x - y)"
| "js_sub Infinity Infinity = NaN"
| "js_sub Neg_Infinity Neg_Infinity = NaN"
| "js_sub Infinity b = Infinity"
| "js_sub Neg_Infinity b = Neg_Infinity"
| "js_sub a Infinity = Neg_Infinity"
| "js_sub a Neg_Infinity = Infinity"

fun js_mul :: "number \<Rightarrow> number \<Rightarrow> number" where
  "js_mul NaN b = NaN"
| "js_mul a NaN = NaN"
| "js_mul (Num x) (Num y) = Num (x * y)"
| "js_mul (Num x) Infinity = (if x = 0 then NaN else if 0 < x then Infinity else Neg_Infinity)"
| "js_mul (Num x) Neg_Infinity = (if x = 0 then NaN else if 0 < x then Neg_Infinity else Infinity)"
| "js_mul Infinity (Num y) = (if y = 0 then NaN else if 0 < y then Infinity else Neg_Infinity)"
| "js_mul Neg_Infinity (Num y) = (if y = 0 then NaN else if 0 < y then Neg_Infinity else Infinity)"
| "js_mul Infinity Infinity = Infinity"
| "js_mul Neg_Infinity Neg_Infinity = Infinity"
| "js_mul Infinity Neg_Infinity = Neg_Infinity"
| "js_mul Neg_Infinity Infinity = Neg_Infinity"

fun js_div :: "number \<Rightarrow> number \<Rightarrow> number" where
  "js_div NaN b = NaN"
| "js_div a NaN = NaN"
| "js_div (Num x) (Num y) =
     (if y = 0 then (if x = 0 then NaN else if 0 < x then Infinity else Neg_Infinity)
      else Num (x / y))"
| "js_div (Num x) b = Num 0"
| "js_div Infinity (Num y) = (if 0 \<le> y then Infinity else Neg_Infinity)"
| "js_div Neg_Infinity (Num y) = (if 0 \<le> y then Neg_Infinity else Infinity)"
| "js_div a b = NaN"

definition js_ceil :: "number \<Rightarrow> number" where
  "js_ceil a = (case a of Num x \<Rightarrow> Num (of_int \<lceil>x\<rceil>) | _ \<Rightarrow> a)"

text \<open>
  The rows a query returns of its ordered matches, for a \<open>skip\<close> and a \<open>take\<close>: a negative
  \<open>take\<close> counts from the end.
\<close>

definition window :: "nat \<Rightarrow> int \<Rightarrow> 'a list \<Rightarrow> 'a list" where
  "window skip tk xs =
     (if 0 \<le> tk then take (nat tk) (drop skip xs)
      else rev (take (nat (- tk)) (drop skip (rev xs))))"

text \<open>A numeric query parameter with its default, as arithmetic and as \<open>parseInt\<close> read it.\<close>

definition query_number :: "env \<Rightarrow> rat \<Rightarrow> string option \<Rightarrow> number" where
  "query_number ev dflt x = (case x of None \<Rightarrow> Num dflt | Some s \<Rightarrow> toNumber ev s)"

definition query_int :: "env \<Rightarrow> int \<Rightarrow> string option \<Rightarrow> int option" where
  "query_int ev dflt x = (case x of None \<Rightarrow> Some dflt | Some s \<Rightarrow> parseInt ev s)"

text \<open>The values of a list in the order in which they first occur.\<close>

definition first_occurrences :: "'a list \<Rightarrow> 'a list" where
  "first_occurrences xs = rev (remdups (rev xs))"

section \<open>Request validation (middleware/validation.js)\<close>

definition category_of_string :: "string \<Rightarrow> category option" where
  "category_of_string s =
     (if s = ''TRAVEL'' then Some TRAVEL
      else if s = ''FOOD'' then Some FOOD
      else if s = ''EQUIPMENT'' then Some EQUIPMENT
      else if s = ''OFFICE_SUPPLIES'' then Some OFFICE_SUPPLIES
      else if s = ''SOFTWARE'' then Some SOFTWARE
      else if s = ''TRAINING'' then Some TRAINING
      else if s = ''OTHER'' then Some OTHER
      else None)"

definition status_of_string :: "string \<Rightarrow> expense_status option" where
  "status_of_string s =
     (if s = ''PENDING'' then Some PENDING
      else if s = ''APPROVED'' then Some APPROVED
      else if s = ''REJECTED'' then Some REJECTED
      else None)"

definition role_of_string :: "string \<Rightarrow> role option" where
  "role_of_string s =
     (if s = ''EMPLOYEE'' then Some EMPLOYEE
      else if s = ''ADMIN'' then Some ADMIN
      else None)"

text \<open>The query string of \<open>GET /api/expenses\<close>: every parameter is a string or absent.\<close>

record expense_query =
  q_category :: "string option"
  q_status :: "string option"
  q_startDate :: "string option"
  q_endDate :: "string option"
  q_page :: "string option"
  q_limit :: "string option"

text \<open>The query after \<open>expenseFilterSchema\<close>: enumerations and dates checked, page and limit numbers.\<close>

record valid_query =
  v_category :: "category option"
  v_status :: "expense_status option"
  v_startDate :: "int option"
  v_endDate :: "int option"
  v_page :: "int option"
  v_limit :: "int option"

text \<open>An optional field is in order when it is absent or the check accepts it.\<close>

definition optional_ok :: "('a \<Rightarrow> 'b option) \<Rightarrow> 'a option \<Rightarrow> bool" where
  "optional_ok check x = (case x of None \<Rightarrow> True | Some s \<Rightarrow> check s \<noteq> None)"

definition page_check :: "env \<Rightarrow> string \<Rightarrow> int option" where
  "page_check ev s = (case parseInt10 ev s of None \<Rightarrow> None
                      | Some n \<Rightarrow> if 1 \<le> n then Some n else None)"

definition limit_check :: "env \<Rightarrow> string \<Rightarrow> int option" where
  "limit_check ev s = (case parseInt10 ev s of None \<Rightarrow> None
                       | Some n \<Rightarrow> if 1 \<le> n \<and> n \<le> 100 then Some n else None)"

definition expenseFilter_issues :: "env \<Rightarrow> expense_query \<Rightarrow> string list" where
  "expenseFilter_issues ev q =
     (if optional_ok category_of_string (q_category q) then [] else [''category'']) @
     (if optional_ok status_of_string (q_status q) then [] else [''status'']) @
     (if optional_ok (parseDatetime ev) (q_startDate q) then [] else [''startDate'']) @
     (if optional_ok (parseDatetime ev) (q_endDate q) then [] else [''endDate'']) @
     (if optional_ok (page_check ev) (q_page q) then [] else [''page'']) @
     (if optional_ok (limit_check ev) (q_limit q) then [] else [''limit''])"

definition validateExpenseFilter :: "env \<Rightarrow> expense_query \<Rightarrow> response + valid_query" where
  "validateExpenseFilter ev q =
     (if expenseFilter_issues ev q \<noteq> [] then
        Inl (Response 400 (Validation_body (expenseFilter_issues ev q)))
      else Inr \<lparr>v_category = Option.bind (q_category q) category_of_string,
                v_status = Option.bind (q_status q) status_of_string,
                v_startDate = Option.bind (q_startDate q) (parseDatetime ev),
                v_endDate = Option.bind (q_endDate q) (parseDatetime ev),
                v_page = Option.bind (q_page q) (page_check ev),
                v_limit = Option.bind (q_limit q) (limit_check ev)\<rparr>)"

section \<open>Role guards (middleware/auth.js)\<close>

text \<open>
  Modelled from the spec: the file with \<open>authenticateToken\<close>, \<open>requireAdmin\<close> and
  \<open>requireEmployee\<close> is not among the sources. The spec has a guard that requires a role
  refuse a caller without it with 403 (Forbidden) and no further detail; this is that
  response.
\<close>

definition forbidden :: response where
  "forbidden = Response 403 Forbidden_body"

text \<open>
  Modelled from the spec: \<open>requireAdmin\<close> (middleware/auth.js, not among the sources) lets a
  caller through when the role is \<open>ADMIN\<close> and refuses every other caller with 403.
\<close>

definition requireAdmin :: "req_user \<Rightarrow> response option" where
  "requireAdmin caller = (if ru_role caller = ADMIN then None else Some forbidden)"

text \<open>
  Modelled from the spec: \<open>requireEmployee\<close> (middleware/auth.js, not among the sources) is a
  guard of the same kind. Which roles it lets through the spec leaves open, so they are the
  parameter \<open>allowed\<close>.
\<close>

definition requireEmployee :: "(role \<Rightarrow> bool) \<Rightarrow> req_user \<Rightarrow> response option" where
  "requireEmployee allowed caller = (if allowed (ru_role caller) then None else Some forbidden)"

section \<open>Expense routes (routes/expenses.js)\<close>

subsection \<open>GET /api/expenses\<close>

text \<open>The \<open>where\<close> object the list handler builds: the role-based filter, then the query filters.\<close>

definition list_where :: "req_user \<Rightarrow> valid_query \<Rightarrow> where_clause" where
  "list_where caller v =
     \<lparr>w_userId = (if ru_role caller = EMPLOYEE then Some (ru_id caller) else None),
      w_category = v_category v,
      w_status = v_status v,
      w_date_gte = v_startDate v,
      w_date_lte = v_endDate v\<rparr>"

definition ceil_div :: "int \<Rightarrow> int \<Rightarrow> int" where
  "ceil_div a b = - ((- a) div b)"

definition expenses_list :: "env \<Rightarrow> db \<Rightarrow> req_user \<Rightarrow> expense_query \<Rightarrow> outcome \<times> db" where
  "expenses_list ev d caller q =
     (case validateExpenseFilter ev q of
        Inl r \<Rightarrow> (Sent r, d)
      | Inr v \<Rightarrow>
          let page = (case v_page v of None \<Rightarrow> 1 | Some p \<Rightarrow> p);
              limit = (case v_limit v of None \<Rightarrow> 20 | Some l \<Rightarrow> l);
              skip = (page - 1) * limit;
              w = list_where caller v
          in if fails ev Expense_findMany \<or> fails ev Expense_count then
               (Sent (Response 500 (Error_body ''Failed to fetch expenses''
                  ''An error occurred while fetching expenses'')), d)
             else
               let rows = expense_findMany_page d w skip limit;
                   total = expense_count d w
               in (Sent (Response 200 (Expense_list (map (include_user d) rows)
                     \<lparr>p_page = page, p_limit = limit, p_total = total,
                      p_pages = ceil_div total limit\<rparr>)), d))"

subsection \<open>The expense schema\<close>

text \<open>The UTF-8 bytes of the rupee sign of the messages.\<close>

definition rupee :: string where
  "rupee = [CHR 0xE2, CHR 0x82, CHR 0xB9]"

record expense_body =
  b_amount :: "string option"
  b_category :: "string option"
  b_date :: "string option"
  b_notes :: "string option"

record valid_expense =
  x_amount :: rat
  x_amountText :: string
  x_category :: category
  x_date :: int
  x_notes :: "string option"

text \<open>The transform of the \<open>amount\<close> field: it throws a plain \<open>Error\<close>, not a zod issue.\<close>

definition amount_transform :: "env \<Rightarrow> string \<Rightarrow> string + rat" where
  "amount_transform ev val =
     (case parseFloat ev val of
        NaN \<Rightarrow> Inl ''Amount must be a positive number''
      | Neg_Infinity \<Rightarrow> Inl ''Amount must be a positive number''
      | Infinity \<Rightarrow> Inl (''Amount cannot exceed '' @ rupee @ ''100,000'')
      | Num n \<Rightarrow>
          if n \<le> 0 then Inl ''Amount must be a positive number''
          else if n < 1 / 100 then Inl (''Amount must be at least '' @ rupee @ ''0.01'')
          else if n > 100000 then Inl (''Amount cannot exceed '' @ rupee @ ''100,000'')
          else Inr n)"

definition expenseSchema_issues :: "env \<Rightarrow> expense_body \<Rightarrow> string list" where
  "expenseSchema_issues ev b =
     (if b_amount b = None then [''amount''] else []) @
     (if Option.bind (b_category b) category_of_string = None then [''category''] else []) @
     (if Option.bind (b_date b) (parseDatetime ev) = None then [''date''] else [])"

text \<open>
  \<open>expenseSchema.parse\<close>: zod parses the fields in the order of the schema, so an amount
  whose transform throws ends the parse before any issue is reported.
\<close>

definition expenseSchema_parse :: "env \<Rightarrow> expense_body \<Rightarrow> validation_error + valid_expense" where
  "expenseSchema_parse ev b =
     (case b_amount b of
        None \<Rightarrow> Inl (Zod_issues (expenseSchema_issues ev b))
      | Some val \<Rightarrow>
          (case amount_transform ev val of
             Inl msg \<Rightarrow> Inl (Thrown msg)
           | Inr n \<Rightarrow>
               (case Option.bind (b_category b) category_of_string of
                  None \<Rightarrow> Inl (Zod_issues (expenseSchema_issues ev b))
                | Some c \<Rightarrow>
                    (case Option.bind (b_date b) (parseDatetime ev) of
                       None \<Rightarrow> Inl (Zod_issues (expenseSchema_issues ev b))
                     | Some t \<Rightarrow>
                         Inr \<lparr>x_amount = n, x_amountText = val, x_category = c,
                              x_date = t, x_notes = b_notes b\<rparr>))))"

text \<open>
  The \<open>validate\<close> middleware: a \<open>ZodError\<close> is answered with 400 and the failing fields, any
  other error goes to \<open>next\<close>.
\<close>

definition validateExpense :: "env \<Rightarrow> expense_body \<Rightarrow> outcome + valid_expense" where
  "validateExpense ev b =
     (case expenseSchema_parse ev b of
        Inl (Zod_issues ps) \<Rightarrow> Inl (Sent (Response 400 (Validation_body ps)))
      | Inl (Thrown m) \<Rightarrow> Inl (Next_error m)
      | Inr v \<Rightarrow> Inr v)"

definition category_to_string :: "category \<Rightarrow> string" where
  "category_to_string c =
     (case c of TRAVEL \<Rightarrow> ''TRAVEL'' | FOOD \<Rightarrow> ''FOOD'' | EQUIPMENT \<Rightarrow> ''EQUIPMENT''
      | OFFICE_SUPPLIES \<Rightarrow> ''OFFICE_SUPPLIES'' | SOFTWARE \<Rightarrow> ''SOFTWARE''
      | TRAINING \<Rightarrow> ''TRAINING'' | OTHER \<Rightarrow> ''OTHER'')"

definition status_to_string :: "expense_status \<Rightarrow> string" where
  "status_to_string s =
     (case s of PENDING \<Rightarrow> ''PENDING'' | APPROVED \<Rightarrow> ''APPROVED'' | REJECTED \<Rightarrow> ''REJECTED'')"

text \<open>JavaScript truthiness of an optional string: present and not empty.\<close>

definition truthy :: "string option \<Rightarrow> bool" where
  "truthy x = (case x of None \<Rightarrow> False | Some s \<Rightarrow> s \<noteq> [])"

definition or_empty :: "string option \<Rightarrow> string" where
  "or_empty x = (case x of None \<Rightarrow> [] | Some s \<Rightarrow> s)"

definition receiptUrl_of :: "upload \<Rightarrow> string option" where
  "receiptUrl_of file = (case file of File filename \<Rightarrow> Some (''/uploads/'' @ filename) | _ \<Rightarrow> None)"

subsection \<open>POST /api/expenses\<close>

text \<open>
  The row \<open>prisma.expense.create\<close> stores. The handler gives neither id nor status: the
  database supplies the id, the creation time and the default status, which the schema in
  DOCUMENTATION.md has as \<open>PENDING\<close>; no rejection reason is given.
\<close>

definition expense_create :: "env \<Rightarrow> valid_expense \<Rightarrow> string option \<Rightarrow> string \<Rightarrow> expense" where
  "expense_create ev v receiptUrl userId =
     \<lparr>e_id = newId ev, e_amount = x_amount v, e_category = x_category v, e_date = x_date v,
      e_notes = x_notes v, e_status = PENDING, e_rejectionReason = None,
      e_receiptUrl = receiptUrl, e_userId = userId, e_createdAt = now ev\<rparr>"

definition create_failed :: response where
  "create_failed = Response 500 (Error_body ''Failed to create expense''
     ''An error occurred while creating the expense'')"

definition expenses_post ::
  "(role \<Rightarrow> bool) \<Rightarrow> env \<Rightarrow> db \<Rightarrow> req_user \<Rightarrow> expense_body \<Rightarrow> upload \<Rightarrow> outcome \<times> db" where
  "expenses_post allowed ev d caller b file =
     (case requireEmployee allowed caller of
        Some r \<Rightarrow> (Sent r, d)
      | None \<Rightarrow>
          (case file of
             Rejected_file m \<Rightarrow> (Next_error m, d)
           | _ \<Rightarrow>
               (case validateExpense ev b of
                  Inl out \<Rightarrow> (out, d)
                | Inr v \<Rightarrow>
                    if fails ev Expense_create then (Sent create_failed, d)
                    else
                      let expense = expense_create ev v (receiptUrl_of file) (ru_id caller);
                          d1 = d\<lparr>expenses := expenses d @ [expense]\<rparr>
                      in if fails ev AuditLog_create then (Sent create_failed, d1)
                         else
                           (Sent (Response 201 (Expense_message ''Expense created successfully''
                              (include_user d1 expense))),
                            auditLog_create ev d1 ''EXPENSE_CREATED''
                              (''Expense created - '' @ rupee @ showNumber ev (x_amount v) @
                               '' for '' @ category_to_string (x_category v))
                              (ru_id caller)))))"

subsection \<open>PUT /api/expenses/:id\<close>

text \<open>\<open>prisma.expense.update\<close> with \<open>where: {id}\<close>: the row of that id, rewritten by \<open>f\<close>.\<close>

definition expense_update :: "db \<Rightarrow> string \<Rightarrow> (expense \<Rightarrow> expense) \<Rightarrow> db" where
  "expense_update d i f = d\<lparr>expenses := map (\<lambda>e. if e_id e = i then f e else e) (expenses d)\<rparr>"

text \<open>The \<open>updateData\<close> object of the edit, applied to a row.\<close>

definition apply_updateData :: "valid_expense \<Rightarrow> upload \<Rightarrow> expense \<Rightarrow> expense" where
  "apply_updateData v file e =
     e\<lparr>e_amount := x_amount v,
       e_category := x_category v,
       e_date := x_date v,
       e_notes := Some (if truthy (x_notes v) then or_empty (x_notes v) else []),
       e_status := PENDING,
       e_receiptUrl := (case file of File filename \<Rightarrow> Some (''/uploads/'' @ filename)
                        | _ \<Rightarrow> e_receiptUrl e)\<rparr>"

definition update_failed :: response where
  "update_failed = Response 500 (Error_body ''Failed to update expense''
     ''An error occurred while updating the expense'')"

definition not_found :: response where
  "not_found = Response 404 (Error_body ''Expense not found''
     ''The requested expense does not exist'')"

definition expenses_put ::
  "env \<Rightarrow> db \<Rightarrow> req_user \<Rightarrow> string \<Rightarrow> expense_body \<Rightarrow> upload \<Rightarrow> outcome \<times> db" where
  "expenses_put ev d caller i b file =
     (case file of
        Rejected_file m \<Rightarrow> (Next_error m, d)
      | _ \<Rightarrow>
          if fails ev Expense_findUnique then (Sent update_failed, d)
          else
            (case expense_findUnique d i of
               None \<Rightarrow> (Sent not_found, d)
             | Some existingExpense \<Rightarrow>
                 if ru_role caller = EMPLOYEE \<and> e_userId existingExpense \<noteq> ru_id caller then
                   (Sent (Response 403 (Error_body ''Access denied''
                      ''You can only edit your own expenses'')), d)
                 else
                   (case expenseSchema_parse ev b of
                      Inl err \<Rightarrow> (Sent (Response 400 (Validation_failed_body err)), d)
                    | Inr v \<Rightarrow>
                        if fails ev Expense_update then (Sent update_failed, d)
                        else
                          let d1 = expense_update d i (apply_updateData v file);
                              updatedExpense = apply_updateData v file existingExpense
                          in if fails ev AuditLog_create then (Sent update_failed, d1)
                             else
                               (Sent (Response 200 (Expense_message ''Expense updated successfully''
                                  (include_user d1 updatedExpense))),
                                auditLog_create ev d1 ''EXPENSE_UPDATED''
                                  (''Expense '' @ i @ '' updated - '' @ rupee @ x_amountText v @
                                   '' for '' @ category_to_string (x_category v))
                                  (ru_id caller)))))"

subsection \<open>PUT /api/expenses/:id/status\<close>

record status_body =
  sb_status :: "string option"
  sb_reason :: "string option"

text \<open>The check \<open>['APPROVED', 'REJECTED'].includes(status)\<close>, with the status it lets through.\<close>

definition decision_of :: "string option \<Rightarrow> expense_status option" where
  "decision_of s =
     (if s = Some ''APPROVED'' then Some APPROVED
      else if s = Some ''REJECTED'' then Some REJECTED
      else None)"

text \<open>The data of the status update: \<open>{status, ...(reason && {rejectionReason: reason})}\<close>.\<close>

definition apply_status :: "expense_status \<Rightarrow> string option \<Rightarrow> expense \<Rightarrow> expense" where
  "apply_status st reason e =
     (if truthy reason then e\<lparr>e_status := st, e_rejectionReason := reason\<rparr>
      else e\<lparr>e_status := st\<rparr>)"

definition status_failed :: response where
  "status_failed = Response 500 (Error_body ''Failed to update expense status''
     ''An error occurred while updating the expense status'')"

definition expenses_put_status ::
  "env \<Rightarrow> db \<Rightarrow> req_user \<Rightarrow> string \<Rightarrow> status_body \<Rightarrow> outcome \<times> db" where
  "expenses_put_status ev d caller i b =
     (case requireAdmin caller of
        Some r \<Rightarrow> (Sent r, d)
      | None \<Rightarrow>
          (case decision_of (sb_status b) of
             None \<Rightarrow> (Sent (Response 400 (Error_body ''Invalid status''
                        ''Status must be either APPROVED or REJECTED'')), d)
           | Some st \<Rightarrow>
               if fails ev Expense_findUnique then (Sent status_failed, d)
               else
                 (case expense_findUnique d i of
                    None \<Rightarrow> (Sent not_found, d)
                  | Some expense \<Rightarrow>
                      if fails ev Expense_update then (Sent status_failed, d)
                      else
                        let d1 = expense_update d i (apply_status st (sb_reason b));
                            updatedExpense = apply_status st (sb_reason b) expense
                        in if fails ev AuditLog_create then (Sent status_failed, d1)
                           else
                             (Sent (Response 200 (Expense_message
                                ''Expense status updated successfully''
                                (include_user d1 updatedExpense))),
                              auditLog_create ev d1 ''EXPENSE_STATUS_UPDATED''
                                (''Expense '' @ i @ '' status changed to '' @ status_to_string st @
                                 (if truthy (sb_reason b)
                                  then '' - Reason: '' @ or_empty (sb_reason b) else []))
                                (ru_id caller)))))"

subsection \<open>GET /api/expenses/export\<close>

text \<open>
  The export reads its filters from the query without validating them: a filter that is
  present and not empty goes into the \<open>where\<close> object as it is, and the query throws on a
  value that is no category, status or date (\<open>None\<close> here).
\<close>

definition raw_filter :: "(string \<Rightarrow> 'a option) \<Rightarrow> string option \<Rightarrow> 'a option option" where
  "raw_filter conv x = (if truthy x then map_option Some (conv (or_empty x)) else Some None)"

definition export_where :: "env \<Rightarrow> expense_query \<Rightarrow> where_clause option" where
  "export_where ev q =
     (case (raw_filter category_of_string (q_category q), raw_filter status_of_string (q_status q),
            raw_filter (newDate ev) (q_startDate q), raw_filter (newDate ev) (q_endDate q)) of
        (Some c, Some s, Some g, Some l) \<Rightarrow>
          Some \<lparr>w_userId = None, w_category = c, w_status = s, w_date_gte = g, w_date_lte = l\<rparr>
      | _ \<Rightarrow> None)"

definition export_failed :: response where
  "export_failed = Response 500 (Error_body ''Failed to export expenses''
     ''An error occurred while exporting expenses'')"

text \<open>
  The response is sent before the audit entry is written. The file is kept as the rows it
  is made of; a row without its user makes \<open>expense.user.name\<close> throw.
\<close>

definition expenses_export :: "env \<Rightarrow> db \<Rightarrow> req_user \<Rightarrow> expense_query \<Rightarrow> outcome \<times> db" where
  "expenses_export ev d caller q =
     (case requireAdmin caller of
        Some r \<Rightarrow> (Sent r, d)
      | None \<Rightarrow>
          (case export_where ev q of
             None \<Rightarrow> (Sent export_failed, d)
           | Some w \<Rightarrow>
               if fails ev Expense_findMany then (Sent export_failed, d)
               else
                 let rows = map (include_user d)
                       (sort_key (\<lambda>e. - e_date e) (filter (where_matches w) (expenses d)))
                 in if list_ex (\<lambda>row. snd row = None) rows then (Sent export_failed, d)
                    else if fails ev AuditLog_create then
                      (Sent_then_threw (Response 200 (Csv_expenses rows)), d)
                    else
                      (Sent (Response 200 (Csv_expenses rows)),
                       auditLog_create ev d ''EXPENSE_EXPORT''
                         (''Exported '' @ showNumber ev (of_nat (length rows)) @ '' expenses to CSV'')
                         (ru_id caller))))"

subsection \<open>GET /api/expenses/:id\<close>

definition expenses_get :: "env \<Rightarrow> db \<Rightarrow> req_user \<Rightarrow> string \<Rightarrow> outcome \<times> db" where
  "expenses_get ev d caller i =
     (if fails ev Expense_findUnique then
        (Sent (Response 500 (Error_body ''Failed to fetch expense''
           ''An error occurred while fetching the expense'')), d)
      else
        (case expense_findUnique d i of
           None \<Rightarrow> (Sent not_found, d)
         | Some expense \<Rightarrow>
             if ru_role caller = EMPLOYEE \<and> e_userId expense \<noteq> ru_id caller then
               (Sent (Response 403 (Error_body ''Access denied''
                  ''You do not have permission to view this expense'')), d)
             else (Sent (Response 200 (Expense_one (include_user d expense))), d)))"

section \<open>Authentication routes (routes/auth.js)\<close>

record login_body =
  l_email :: "string option"
  l_password :: "string option"

text \<open>\<open>loginSchema\<close>: an email in email format and a password of at least one character.\<close>

definition loginSchema_issues :: "env \<Rightarrow> login_body \<Rightarrow> string list" where
  "loginSchema_issues ev b =
     (case l_email b of None \<Rightarrow> [''email'']
      | Some m \<Rightarrow> if isEmail ev m then [] else [''email'']) @
     (case l_password b of None \<Rightarrow> [''password'']
      | Some p \<Rightarrow> if 1 \<le> length p then [] else [''password''])"

definition login_failed :: response where
  "login_failed = Response 500 (Error_body ''Login failed'' ''An error occurred during login'')"

definition auth_login :: "env \<Rightarrow> db \<Rightarrow> login_body \<Rightarrow> outcome \<times> db" where
  "auth_login ev d b =
     (if loginSchema_issues ev b \<noteq> [] then
        (Sent (Response 400 (Validation_body (loginSchema_issues ev b))), d)
      else
        let email = or_empty (l_email b); password = or_empty (l_password b)
        in if fails ev User_findUnique_email then (Sent login_failed, d)
           else
             (case user_findUnique_email d email of
                None \<Rightarrow>
                  (Sent (Response 401 (Error_body ''Invalid credentials''
                     ''Email or password is incorrect'')), d)
              | Some user \<Rightarrow>
                  if \<not> bcrypt_compare ev password (u_password user) then
                    (Sent (Response 401 (Error_body ''Invalid credentials''
                       ''Email or password is incorrect'')), d)
                  else if fails ev AuditLog_create then (Sent login_failed, d)
                  else
                    let d1 = auditLog_create ev d ''USER_LOGIN''
                               (''User '' @ u_email user @ '' logged in'') (u_id user)
                    in if fails ev Jwt_sign then (Sent login_failed, d1)
                       else
                         (Sent (Response 200 (Login_body ''Login successful''
                            \<lparr>ru_id = u_id user, ru_email = u_email user, ru_name = u_name user,
                             ru_role = u_role user\<rparr>
                            (jwt_sign ev \<lparr>t_userId = u_id user, t_email = u_email user,
                                          t_role = u_role user\<rparr>))), d1)))"

definition auth_logout :: "env \<Rightarrow> db \<Rightarrow> req_user \<Rightarrow> outcome \<times> db" where
  "auth_logout ev d caller =
     (if fails ev AuditLog_create then
        (Sent (Response 500 (Error_body ''Logout failed'' ''An error occurred during logout'')), d)
      else
        (Sent (Response 200 (Message ''Logout successful'')),
         auditLog_create ev d ''USER_LOGOUT''
           (''User '' @ ru_email caller @ '' logged out'') (ru_id caller)))"

definition auth_me :: "env \<Rightarrow> db \<Rightarrow> req_user \<Rightarrow> outcome \<times> db" where
  "auth_me ev d caller = (Sent (Response 200 (Me_body caller)), d)"

section \<open>User routes (routes/users.js)\<close>

record user_body =
  ub_email :: "string option"
  ub_password :: "string option"
  ub_name :: "string option"
  ub_role :: "string option"

definition public_of :: "user \<Rightarrow> user_public" where
  "public_of u = \<lparr>up_id = u_id u, up_email = u_email u, up_name = u_name u,
                  up_role = u_role u, up_createdAt = u_createdAt u\<rparr>"

subsection \<open>POST /api/users\<close>

text \<open>\<open>userSchema\<close>: email, a password of at least 6 characters, a name of 1 to 100, an optional role.\<close>

definition userSchema_issues :: "env \<Rightarrow> user_body \<Rightarrow> string list" where
  "userSchema_issues ev b =
     (case ub_email b of None \<Rightarrow> [''email'']
      | Some m \<Rightarrow> if isEmail ev m then [] else [''email'']) @
     (case ub_password b of None \<Rightarrow> [''password'']
      | Some p \<Rightarrow> if 6 \<le> length p then [] else [''password'']) @
     (case ub_name b of None \<Rightarrow> [''name'']
      | Some n \<Rightarrow> if 1 \<le> length n \<and> length n \<le> 100 then [] else [''name'']) @
     (if optional_ok role_of_string (ub_role b) then [] else [''role''])"

definition user_create_failed :: response where
  "user_create_failed = Response 500 (Error_body ''Failed to create user''
     ''An error occurred while creating the user'')"

definition users_post :: "env \<Rightarrow> db \<Rightarrow> req_user \<Rightarrow> user_body \<Rightarrow> outcome \<times> db" where
  "users_post ev d caller b =
     (case requireAdmin caller of
        Some r \<Rightarrow> (Sent r, d)
      | None \<Rightarrow>
          if userSchema_issues ev b \<noteq> [] then
            (Sent (Response 400 (Validation_body (userSchema_issues ev b))), d)
          else
            let email = or_empty (ub_email b);
                password = or_empty (ub_password b);
                name = or_empty (ub_name b);
                role = (case Option.bind (ub_role b) role_of_string of
                          None \<Rightarrow> EMPLOYEE | Some r \<Rightarrow> r)
            in if fails ev User_findUnique_email then (Sent user_create_failed, d)
               else
                 (case user_findUnique_email d email of
                    Some existingUser \<Rightarrow>
                      (Sent (Response 400 (Error_body ''User already exists''
                         ''A user with this email already exists'')), d)
                  | None \<Rightarrow>
                      if fails ev User_create then (Sent user_create_failed, d)
                      else
                        let user = \<lparr>u_id = newId ev, u_email = email,
                                     u_password = bcrypt_hash ev password, u_name = name,
                                     u_role = role, u_createdAt = now ev\<rparr>;
                            d1 = d\<lparr>users := users d @ [user]\<rparr>
                        in if fails ev AuditLog_create then (Sent user_create_failed, d1)
                           else
                             (Sent (Response 201 (User_message ''User created successfully''
                                (public_of user))),
                              auditLog_create ev d1 ''USER_CREATED''
                                (''User '' @ email @ '' created by admin'') (ru_id caller))))"

subsection \<open>PUT /api/users/:id\<close>

text \<open>\<open>userUpdateSchema\<close>: the same checks, every field optional.\<close>

definition userUpdateSchema_issues :: "env \<Rightarrow> user_body \<Rightarrow> string list" where
  "userUpdateSchema_issues ev b =
     (case ub_email b of None \<Rightarrow> []
      | Some m \<Rightarrow> if isEmail ev m then [] else [''email'']) @
     (case ub_password b of None \<Rightarrow> []
      | Some p \<Rightarrow> if 6 \<le> length p then [] else [''password'']) @
     (case ub_name b of None \<Rightarrow> []
      | Some n \<Rightarrow> if 1 \<le> length n \<and> length n \<le> 100 then [] else [''name'']) @
     (if optional_ok role_of_string (ub_role b) then [] else [''role''])"

text \<open>\<open>prisma.user.update\<close> with \<open>where: {id}\<close>.\<close>

definition user_update :: "db \<Rightarrow> string \<Rightarrow> (user \<Rightarrow> user) \<Rightarrow> db" where
  "user_update d i f = d\<lparr>users := map (\<lambda>u. if u_id u = i then f u else u) (users d)\<rparr>"

text \<open>
  The \<open>updateData\<close> object of the user update, applied to a row: a field that is absent or
  empty falls back to the existing value, and the password is written only when one is given.
\<close>

definition apply_userUpdate :: "env \<Rightarrow> user_body \<Rightarrow> user \<Rightarrow> user \<Rightarrow> user" where
  "apply_userUpdate ev b existingUser u =
     (let u1 = u\<lparr>u_email := (if truthy (ub_email b) then or_empty (ub_email b)
                              else u_email existingUser),
                   u_name := (if truthy (ub_name b) then or_empty (ub_name b)
                              else u_name existingUser),
                   u_role := (case (if truthy (ub_role b)
                                    then Option.bind (ub_role b) role_of_string else None) of
                                None \<Rightarrow> u_role existingUser | Some r \<Rightarrow> r)\<rparr>
      in if truthy (ub_password b)
         then u1\<lparr>u_password := bcrypt_hash ev (or_empty (ub_password b))\<rparr>
         else u1)"

definition user_update_failed :: response where
  "user_update_failed = Response 500 (Error_body ''Failed to update user''
     ''An error occurred while updating the user'')"

definition user_not_found :: response where
  "user_not_found = Response 404 (Error_body ''User not found''
     ''The requested user does not exist'')"

definition users_put :: "env \<Rightarrow> db \<Rightarrow> req_user \<Rightarrow> string \<Rightarrow> user_body \<Rightarrow> outcome \<times> db" where
  "users_put ev d caller i b =
     (case requireAdmin caller of
        Some r \<Rightarrow> (Sent r, d)
      | None \<Rightarrow>
          if userUpdateSchema_issues ev b \<noteq> [] then
            (Sent (Response 400 (Validation_body (userUpdateSchema_issues ev b))), d)
          else if fails ev User_findUnique_id then (Sent user_update_failed, d)
          else
            (case user_findUnique_id d i of
               None \<Rightarrow> (Sent user_not_found, d)
             | Some existingUser \<Rightarrow>
                 if truthy (ub_email b) \<and> or_empty (ub_email b) \<noteq> u_email existingUser
                    \<and> fails ev User_findUnique_email then (Sent user_update_failed, d)
                 else if truthy (ub_email b) \<and> or_empty (ub_email b) \<noteq> u_email existingUser
                    \<and> user_findUnique_email d (or_empty (ub_email b)) \<noteq> None then
                   (Sent (Response 400 (Error_body ''Email already exists''
                      ''A user with this email already exists'')), d)
                 else if fails ev User_update then (Sent user_update_failed, d)
                 else
                   let d1 = user_update d i (apply_userUpdate ev b existingUser);
                       updatedUser = apply_userUpdate ev b existingUser existingUser
                   in if fails ev AuditLog_create then (Sent user_update_failed, d1)
                      else
                        (Sent (Response 200 (User_message ''User updated successfully''
                           (public_of updatedUser))),
                         auditLog_create ev d1 ''USER_UPDATED''
                           (''User '' @ u_email updatedUser @ '' updated by admin'')
                           (ru_id caller))))"

subsection \<open>DELETE /api/users/:id\<close>

text \<open>
  \<open>prisma.user.delete\<close> with \<open>where: {id}\<close>. The expenses and the audit logs of the user go
  with the row, as the comment in the handler says: their foreign keys are declared
  \<open>ON DELETE CASCADE\<close> in the schema of DOCUMENTATION.md.
\<close>

definition user_delete :: "db \<Rightarrow> string \<Rightarrow> db" where
  "user_delete d i =
     \<lparr>users = filter (\<lambda>u. u_id u \<noteq> i) (users d),
      expenses = filter (\<lambda>e. e_userId e \<noteq> i) (expenses d),
      auditLogs = filter (\<lambda>a. a_userId a \<noteq> i) (auditLogs d)\<rparr>"

definition user_delete_failed :: response where
  "user_delete_failed = Response 500 (Error_body ''Failed to delete user''
     ''An error occurred while deleting the user'')"

definition users_delete :: "env \<Rightarrow> db \<Rightarrow> req_user \<Rightarrow> string \<Rightarrow> outcome \<times> db" where
  "users_delete ev d caller i =
     (case requireAdmin caller of
        Some r \<Rightarrow> (Sent r, d)
      | None \<Rightarrow>
          if fails ev User_findUnique_id then (Sent user_delete_failed, d)
          else
            (case user_findUnique_id d i of
               None \<Rightarrow> (Sent user_not_found, d)
             | Some user \<Rightarrow>
                 if u_id user = ru_id caller then
                   (Sent (Response 400 (Error_body ''Cannot delete yourself''
                      ''You cannot delete your own account'')), d)
                 else if fails ev User_delete then (Sent user_delete_failed, d)
                 else
                   let d1 = user_delete d i
                   in if fails ev AuditLog_create then (Sent user_delete_failed, d1)
                      else
                        (Sent (Response 200 (Message ''User deleted successfully'')),
                         auditLog_create ev d1 ''USER_DELETED''
                           (''User '' @ u_email user @ '' deleted by admin'') (ru_id caller))))"

subsection \<open>GET /api/users/:id\<close>

definition users_get :: "env \<Rightarrow> db \<Rightarrow> req_user \<Rightarrow> string \<Rightarrow> outcome \<times> db" where
  "users_get ev d caller i =
     (case requireAdmin caller of
        Some r \<Rightarrow> (Sent r, d)
      | None \<Rightarrow>
          if fails ev User_findUnique_id then
            (Sent (Response 500 (Error_body ''Failed to fetch user''
               ''An error occurred while fetching the user'')), d)
          else
            (case user_findUnique_id d i of
               None \<Rightarrow> (Sent user_not_found, d)
             | Some user \<Rightarrow>
                 (Sent (Response 200 (User_one (public_of user)
                    (length (filter (\<lambda>e. e_userId e = u_id user) (expenses d))))), d)))"

subsection \<open>GET /api/users\<close>

record list_query =
  lq_page :: "string option"
  lq_limit :: "string option"
  lq_search :: "string option"

text \<open>\<open>contains\<close> with \<open>mode: 'insensitive'\<close>, on the letters A to Z.\<close>

definition lower :: "char \<Rightarrow> char" where
  "lower c = (if 65 \<le> (of_char c :: nat) \<and> (of_char c :: nat) \<le> 90
              then char_of ((of_char c :: nat) + 32) else c)"

fun contains :: "string \<Rightarrow> string \<Rightarrow> bool" where
  "contains [] s = (s = [])"
| "contains (c # cs) s = (take (length s) (c # cs) = s \<or> contains cs s)"

definition contains_insensitive :: "string \<Rightarrow> string \<Rightarrow> bool" where
  "contains_insensitive v s = contains (map lower v) (map lower s)"

definition users_list_failed :: response where
  "users_list_failed = Response 500 (Error_body ''Failed to fetch users''
     ''An error occurred while fetching users'')"

definition users_list :: "env \<Rightarrow> db \<Rightarrow> req_user \<Rightarrow> list_query \<Rightarrow> outcome \<times> db" where
  "users_list ev d caller q =
     (case requireAdmin caller of
        Some r \<Rightarrow> (Sent r, d)
      | None \<Rightarrow>
          let page = query_number ev 1 (lq_page q);
              limit = query_number ev 20 (lq_limit q);
              skip = js_mul (js_sub page (Num 1)) limit;
              matching = filter (\<lambda>u. \<not> truthy (lq_search q) \<or>
                           contains_insensitive (u_name u) (or_empty (lq_search q)) \<or>
                           contains_insensitive (u_email u) (or_empty (lq_search q))) (users d)
          in if fails ev User_findMany \<or> fails ev User_count then (Sent users_list_failed, d)
             else
               (case (prismaSkip ev skip, prismaTake ev (query_int ev 20 (lq_limit q))) of
                  (Some s, Some t) \<Rightarrow>
                    (Sent (Response 200 (Users_list
                       (map (\<lambda>u. (public_of u,
                               length (filter (\<lambda>e. e_userId e = u_id u) (expenses d))))
                          (window s t (sort_key (\<lambda>u. - u_createdAt u) matching)))
                       \<lparr>rp_page = query_int ev 1 (lq_page q),
                        rp_limit = query_int ev 20 (lq_limit q),
                        rp_total = length matching,
                        rp_pages = js_ceil (js_div (Num (of_nat (length matching))) limit)\<rparr>)),
                     d)
                | _ \<Rightarrow> (Sent users_list_failed, d)))"

section \<open>Audit routes (routes/audit.js)\<close>

subsection \<open>GET /api/logs/export\<close>

record audit_query =
  aq_action :: "string option"
  aq_userId :: "string option"
  aq_startDate :: "string option"
  aq_endDate :: "string option"

record audit_where =
  aw_action :: "string option"
  aw_userId :: "string option"
  aw_timestamp_gte :: "int option"
  aw_timestamp_lte :: "int option"

definition audit_matches :: "audit_where \<Rightarrow> auditLog \<Rightarrow> bool" where
  "audit_matches w a =
     ((case aw_action w of None \<Rightarrow> True | Some x \<Rightarrow> a_action a = x) \<and>
      (case aw_userId w of None \<Rightarrow> True | Some u \<Rightarrow> a_userId a = u) \<and>
      (case aw_timestamp_gte w of None \<Rightarrow> True | Some t \<Rightarrow> t \<le> a_timestamp a) \<and>
      (case aw_timestamp_lte w of None \<Rightarrow> True | Some t \<Rightarrow> a_timestamp a \<le> t))"

definition audit_export_where :: "env \<Rightarrow> audit_query \<Rightarrow> audit_where option" where
  "audit_export_where ev q =
     (case (raw_filter (newDate ev) (aq_startDate q), raw_filter (newDate ev) (aq_endDate q)) of
        (Some g, Some l) \<Rightarrow>
          Some \<lparr>aw_action = (if truthy (aq_action q) then aq_action q else None),
                aw_userId = (if truthy (aq_userId q) then aq_userId q else None),
                aw_timestamp_gte = g, aw_timestamp_lte = l\<rparr>
      | _ \<Rightarrow> None)"

definition include_log_user :: "db \<Rightarrow> auditLog \<Rightarrow> auditLog \<times> user_summary option" where
  "include_log_user d a = (a, map_option summary_of (user_findUnique_id d (a_userId a)))"

definition audit_export_failed :: response where
  "audit_export_failed = Response 500 (Error_body ''Failed to export audit logs''
     ''An error occurred while exporting audit logs'')"

definition audit_export :: "env \<Rightarrow> db \<Rightarrow> req_user \<Rightarrow> audit_query \<Rightarrow> outcome \<times> db" where
  "audit_export ev d caller q =
     (case requireAdmin caller of
        Some r \<Rightarrow> (Sent r, d)
      | None \<Rightarrow>
          (case audit_export_where ev q of
             None \<Rightarrow> (Sent audit_export_failed, d)
           | Some w \<Rightarrow>
               if fails ev AuditLog_findMany then (Sent audit_export_failed, d)
               else
                 let logs = map (include_log_user d)
                       (sort_key (\<lambda>a. - a_timestamp a) (filter (audit_matches w) (auditLogs d)))
                 in if list_ex (\<lambda>row. snd row = None) logs then (Sent audit_export_failed, d)
                    else if fails ev AuditLog_create then
                      (Sent_then_threw (Response 200 (Csv_auditLogs logs)), d)
                    else
                      (Sent (Response 200 (Csv_auditLogs logs)),
                       auditLog_create ev d ''AUDIT_EXPORT''
                         (''Exported '' @ showNumber ev (of_nat (length logs)) @ '' audit logs to CSV'')
                         (ru_id caller))))"

subsection \<open>GET /api/logs\<close>

record logs_query =
  gq_page :: "string option"
  gq_limit :: "string option"
  gq_filter :: audit_query

definition logs_failed :: response where
  "logs_failed = Response 500 (Error_body ''Failed to fetch audit logs''
     ''An error occurred while fetching audit logs'')"

definition audit_list :: "env \<Rightarrow> db \<Rightarrow> req_user \<Rightarrow> logs_query \<Rightarrow> outcome \<times> db" where
  "audit_list ev d caller q =
     (case requireAdmin caller of
        Some r \<Rightarrow> (Sent r, d)
      | None \<Rightarrow>
          let page = query_number ev 1 (gq_page q);
              limit = query_number ev 20 (gq_limit q);
              skip = js_mul (js_sub page (Num 1)) limit
          in (case audit_export_where ev (gq_filter q) of
                None \<Rightarrow> (Sent logs_failed, d)
              | Some w \<Rightarrow>
                  if fails ev AuditLog_findMany \<or> fails ev AuditLog_count then
                    (Sent logs_failed, d)
                  else
                    (case (prismaSkip ev skip, prismaTake ev (query_int ev 20 (gq_limit q))) of
                       (Some s, Some t) \<Rightarrow>
                         (Sent (Response 200 (Logs_list
                            (map (include_log_user d)
                               (window s t (sort_key (\<lambda>a. - a_timestamp a)
                                  (filter (audit_matches w) (auditLogs d)))))
                            \<lparr>rp_page = query_int ev 1 (gq_page q),
                             rp_limit = query_int ev 20 (gq_limit q),
                             rp_total = length (filter (audit_matches w) (auditLogs d)),
                             rp_pages = js_ceil (js_div
                               (Num (of_nat (length (filter (audit_matches w) (auditLogs d)))))
                               limit)\<rparr>)),
                          d)
                     | _ \<Rightarrow> (Sent logs_failed, d))))"

subsection \<open>GET /api/logs/stats\<close>

record range_query =
  rq_startDate :: "string option"
  rq_endDate :: "string option"

text \<open>
  The total and the two groupings, by action and by user. The grouping by user is called
  with an \<open>include\<close>, which \<open>groupBy\<close> does not take: whether the client throws on it is
  left to \<open>fails\<close>, and a group has no \<open>user\<close> to show, so only its count reaches the
  response. The groups are listed in the order in which their keys first occur.
\<close>

definition audit_stats :: "env \<Rightarrow> db \<Rightarrow> req_user \<Rightarrow> range_query \<Rightarrow> outcome \<times> db" where
  "audit_stats ev d caller q =
     (case requireAdmin caller of
        Some r \<Rightarrow> (Sent r, d)
      | None \<Rightarrow>
          (case audit_export_where ev \<lparr>aq_action = None, aq_userId = None,
                  aq_startDate = rq_startDate q, aq_endDate = rq_endDate q\<rparr> of
             None \<Rightarrow>
               (Sent (Response 500 (Error_body ''Failed to fetch audit statistics''
                  ''An error occurred while fetching audit statistics'')), d)
           | Some w \<Rightarrow>
               if fails ev AuditLog_count \<or> fails ev AuditLog_groupBy then
                 (Sent (Response 500 (Error_body ''Failed to fetch audit statistics''
                    ''An error occurred while fetching audit statistics'')), d)
               else
                 let logs = filter (audit_matches w) (auditLogs d)
                 in (Sent (Response 200 (Stats_body (length logs)
                       (map (\<lambda>x. (x, length (filter (\<lambda>a. a_action a = x) logs)))
                          (first_occurrences (map a_action logs)))
                       (map (\<lambda>u. length (filter (\<lambda>a. a_userId a = u) logs))
                          (first_occurrences (map a_userId logs))))), d)))"

subsection \<open>GET /api/logs/recent\<close>

definition audit_recent :: "env \<Rightarrow> db \<Rightarrow> req_user \<Rightarrow> outcome \<times> db" where
  "audit_recent ev d caller =
     (case requireAdmin caller of
        Some r \<Rightarrow> (Sent r, d)
      | None \<Rightarrow>
          if fails ev AuditLog_findMany then
            (Sent (Response 500 (Error_body ''Failed to fetch recent activity''
               ''An error occurred while fetching recent activity'')), d)
          else
            (Sent (Response 200 (Recent_body (map (include_log_user d)
               (take 50 (sort_key (\<lambda>a. - a_timestamp a)
                  (filter (\<lambda>a. previousDay ev (now ev) \<le> a_timestamp a) (auditLogs d))))))),
             d))"

section \<open>Analytics routes (routes/analytics.js)\<close>

text \<open>
  The analytics handlers only read. Their figures are sums, averages and rates of the
  amounts, taken here over the exact rationals. Where the query gives no order (the groups
  of a \<open>groupBy\<close>, rows with the same sort key) the order of the table is kept.
\<close>

definition sum_amount :: "expense list \<Rightarrow> rat" where
  "sum_amount rows = sum_list (map e_amount rows)"

definition by_category :: "expense list \<Rightarrow> category_total list" where
  "by_category rows =
     map (\<lambda>c. \<lparr>ct_category = c,
               ct_totalAmount = sum_amount (filter (\<lambda>e. e_category e = c) rows),
               ct_count = length (filter (\<lambda>e. e_category e = c) rows)\<rparr>)
       (first_occurrences (map e_category rows))"

text \<open>
  The counts, the total, the average and the approval rate of a set of rows; \<open>scale\<close> is 1
  where the rate is a fraction and 100 where it is a percentage.
\<close>

definition summary_of_rows :: "rat \<Rightarrow> expense list \<Rightarrow> summary" where
  "summary_of_rows scale rows =
     \<lparr>s_totalExpenses = length rows,
      s_pendingExpenses = length (filter (\<lambda>e. e_status e = PENDING) rows),
      s_approvedExpenses = length (filter (\<lambda>e. e_status e = APPROVED) rows),
      s_rejectedExpenses = length (filter (\<lambda>e. e_status e = REJECTED) rows),
      s_totalAmount = sum_amount rows,
      s_averageAmount = (if rows = [] then 0 else sum_amount rows / of_nat (length rows)),
      s_approvalRate =
        (if 0 < length rows
         then of_nat (length (filter (\<lambda>e. e_status e = APPROVED) rows)) / of_nat (length rows)
              * scale
         else 0)\<rparr>"

text \<open>
  The monthly buckets: one for every calendar month from that of \<open>startDate\<close> to that of
  \<open>endDate\<close>, filled from the rows whose date lies in the month.
\<close>

definition monthly :: "env \<Rightarrow> int \<Rightarrow> int \<Rightarrow> expense list \<Rightarrow> month_total list" where
  "monthly ev startDate endDate rows =
     map (\<lambda>m. \<lparr>mt_month = monthLabel ev m,
               mt_total = sum_amount (filter (\<lambda>e. monthIndex ev (e_date e) = m) rows),
               mt_count = length (filter (\<lambda>e. monthIndex ev (e_date e) = m) rows),
               mt_categories =
                 map (\<lambda>c. (c, sum_amount (filter (\<lambda>e. e_category e = c)
                                  (filter (\<lambda>e. monthIndex ev (e_date e) = m) rows))))
                   (first_occurrences (map e_category
                      (filter (\<lambda>e. monthIndex ev (e_date e) = m) rows)))\<rparr>)
       [monthIndex ev startDate .. monthIndex ev endDate]"

text \<open>The groups by user, the largest total first.\<close>

definition by_user :: "expense list \<Rightarrow> (string \<times> rat \<times> nat) list" where
  "by_user rows =
     sort_key (\<lambda>g. - fst (snd g))
       (map (\<lambda>u. (u, sum_amount (filter (\<lambda>e. e_userId e = u) rows),
                    length (filter (\<lambda>e. e_userId e = u) rows)))
          (first_occurrences (map e_userId rows)))"

definition spender_of :: "db \<Rightarrow> string \<times> rat \<times> nat \<Rightarrow> spender" where
  "spender_of d g =
     \<lparr>sp_user = map_option summary_of (user_findUnique_id d (fst g)),
      sp_totalAmount = fst (snd g), sp_expenseCount = snd (snd g)\<rparr>"

text \<open>The \<open>where\<close> object of the handlers that filter by an unvalidated date range.\<close>

definition range_where :: "env \<Rightarrow> range_query \<Rightarrow> where_clause option" where
  "range_where ev q =
     (case (raw_filter (newDate ev) (rq_startDate q), raw_filter (newDate ev) (rq_endDate q)) of
        (Some g, Some l) \<Rightarrow>
          Some \<lparr>w_userId = None, w_category = None, w_status = None,
                w_date_gte = g, w_date_lte = l\<rparr>
      | _ \<Rightarrow> None)"

subsection \<open>GET /api/analytics/summary\<close>

definition analytics_failed :: response where
  "analytics_failed = Response 500 (Error_body ''Failed to fetch analytics''
     ''An error occurred while fetching analytics data'')"

definition analytics_summary ::
  "env \<Rightarrow> db \<Rightarrow> req_user \<Rightarrow> string option \<Rightarrow> outcome \<times> db" where
  "analytics_summary ev d caller days =
     (case subtractDays ev (now ev) (query_int ev 30 days) of
        None \<Rightarrow> (Sent analytics_failed, d)
      | Some startDate \<Rightarrow>
          let w = \<lparr>w_userId = (if ru_role caller = EMPLOYEE then Some (ru_id caller) else None),
                   w_category = None, w_status = None,
                   w_date_gte = Some startDate, w_date_lte = Some (now ev)\<rparr>;
              rows = filter (where_matches w) (expenses d);
              topSpenders = take 5 (by_user rows)
          in if fails ev Expense_count \<or> fails ev Expense_aggregate \<or>
                fails ev Expense_groupBy \<or> fails ev Expense_findMany \<or>
                (topSpenders \<noteq> [] \<and> fails ev User_findUnique_id) then
               (Sent analytics_failed, d)
             else
               (Sent (Response 200 (Summary_body (summary_of_rows 1 rows) (by_category rows)
                  (monthly ev startDate (now ev) (sort_key e_date rows))
                  (map (spender_of d) topSpenders))), d))"

subsection \<open>GET /api/analytics/categories\<close>

definition analytics_categories ::
  "env \<Rightarrow> db \<Rightarrow> req_user \<Rightarrow> range_query \<Rightarrow> outcome \<times> db" where
  "analytics_categories ev d caller q =
     (case requireAdmin caller of
        Some r \<Rightarrow> (Sent r, d)
      | None \<Rightarrow>
          (case range_where ev q of
             None \<Rightarrow>
               (Sent (Response 500 (Error_body ''Failed to fetch category analytics''
                  ''An error occurred while fetching category data'')), d)
           | Some w \<Rightarrow>
               if fails ev Expense_groupBy then
                 (Sent (Response 500 (Error_body ''Failed to fetch category analytics''
                    ''An error occurred while fetching category data'')), d)
               else
                 let formattedData = by_category (filter (where_matches w) (expenses d))
                 in (Sent (Response 200 (Categories_body formattedData
                       (sum_list (map ct_totalAmount formattedData)))), d)))"

subsection \<open>GET /api/analytics/trends\<close>

definition analytics_trends ::
  "env \<Rightarrow> db \<Rightarrow> req_user \<Rightarrow> string option \<Rightarrow> outcome \<times> db" where
  "analytics_trends ev d caller months =
     (case requireAdmin caller of
        Some r \<Rightarrow> (Sent r, d)
      | None \<Rightarrow>
          (case subtractMonths ev (now ev) (query_int ev 6 months) of
             None \<Rightarrow>
               (Sent (Response 500 (Error_body ''Failed to fetch trends analytics''
                  ''An error occurred while fetching trends data'')), d)
           | Some startDate \<Rightarrow>
               if fails ev Expense_findMany then
                 (Sent (Response 500 (Error_body ''Failed to fetch trends analytics''
                    ''An error occurred while fetching trends data'')), d)
               else
                 let rows = sort_key e_date
                       (filter (\<lambda>e. startDate \<le> e_date e \<and> e_date e \<le> now ev) (expenses d));
                     formattedData = monthly ev startDate (now ev) rows
                 in (Sent (Response 200 (Trends_body formattedData
                       (sum_list (map mt_total formattedData))
                       (sum_list (map mt_count formattedData))
                       (js_div (Num (sum_list (map mt_total formattedData)))
                          (Num (of_nat (length formattedData)))))), d)))"

subsection \<open>GET /api/analytics/summary-old\<close>

definition analytics_summary_old ::
  "env \<Rightarrow> db \<Rightarrow> req_user \<Rightarrow> range_query \<Rightarrow> outcome \<times> db" where
  "analytics_summary_old ev d caller q =
     (case requireAdmin caller of
        Some r \<Rightarrow> (Sent r, d)
      | None \<Rightarrow>
          (case range_where ev q of
             None \<Rightarrow>
               (Sent (Response 500 (Error_body ''Failed to fetch summary analytics''
                  ''An error occurred while fetching summary data'')), d)
           | Some w \<Rightarrow>
               if fails ev Expense_count \<or> fails ev Expense_aggregate then
                 (Sent (Response 500 (Error_body ''Failed to fetch summary analytics''
                    ''An error occurred while fetching summary data'')), d)
               else
                 (Sent (Response 200 (Summary_old_body
                    (summary_of_rows 100 (filter (where_matches w) (expenses d))))), d)))"

subsection \<open>GET /api/analytics/top-spenders\<close>

definition top_spenders_failed :: response where
  "top_spenders_failed = Response 500 (Error_body ''Failed to fetch top spenders''
     ''An error occurred while fetching top spenders data'')"

definition analytics_top_spenders ::
  "env \<Rightarrow> db \<Rightarrow> req_user \<Rightarrow> string option \<Rightarrow> range_query \<Rightarrow> outcome \<times> db" where
  "analytics_top_spenders ev d caller limit q =
     (case requireAdmin caller of
        Some r \<Rightarrow> (Sent r, d)
      | None \<Rightarrow>
          (case range_where ev q of
             None \<Rightarrow> (Sent top_spenders_failed, d)
           | Some w \<Rightarrow>
               if fails ev Expense_groupBy then (Sent top_spenders_failed, d)
               else
                 (case prismaTake ev (query_int ev 5 limit) of
                    None \<Rightarrow> (Sent top_spenders_failed, d)
                  | Some t \<Rightarrow>
                      let topSpenders = window 0 t
                            (by_user (filter (where_matches w) (expenses d)))
                      in if topSpenders \<noteq> [] \<and> fails ev User_findUnique_id then
                           (Sent top_spenders_failed, d)
                         else
                           (Sent (Response 200 (Top_spenders_body
                              (map (spender_of d) topSpenders))), d))))"

section \<open>The application (server.js)\<close>

text \<open>
  The requests the routers above answer, each with what its handler reads from the request:
  the authenticated caller, the path parameter, the query or the body.
\<close>

datatype request =
    Get_expenses req_user expense_query
  | Post_expense req_user expense_body upload
  | Put_expense req_user string expense_body upload
  | Put_expense_status req_user string status_body
  | Get_expenses_export req_user expense_query
  | Get_expense req_user string
  | Post_login login_body
  | Post_logout req_user
  | Get_me req_user
  | Post_user req_user user_body
  | Put_user req_user string user_body
  | Delete_user req_user string
  | Get_user req_user string
  | Get_logs_export req_user audit_query
  | Get_users req_user list_query
  | Get_logs req_user logs_query
  | Get_logs_stats req_user range_query
  | Get_logs_recent req_user
  | Get_analytics_summary req_user "string option"
  | Get_analytics_categories req_user range_query
  | Get_analytics_trends req_user "string option"
  | Get_analytics_summary_old req_user range_query
  | Get_analytics_top_spenders req_user "string option" range_query
  | Get_health
  | Other_route string

text \<open>\<open>GET /health\<close> answers with the time and the environment, behind no authentication.\<close>

definition health :: "env \<Rightarrow> db \<Rightarrow> outcome \<times> db" where
  "health ev d = (Sent (Response 200 (Health_body (now ev) (nodeEnv ev))), d)"

text \<open>A request for any other path is answered by the 404 handler.\<close>

definition route_not_found :: "db \<Rightarrow> string \<Rightarrow> outcome \<times> db" where
  "route_not_found d path = (Sent (Response 404 (Route_not_found path)), d)"

fun app :: "(role \<Rightarrow> bool) \<Rightarrow> env \<Rightarrow> db \<Rightarrow> request \<Rightarrow> outcome \<times> db" where
  "app g ev d (Get_expenses caller q) = expenses_list ev d caller q"
| "app g ev d (Post_expense caller b file) = expenses_post g ev d caller b file"
| "app g ev d (Put_expense caller i b file) = expenses_put ev d caller i b file"
| "app g ev d (Put_expense_status caller i b) = expenses_put_status ev d caller i b"
| "app g ev d (Get_expenses_export caller q) = expenses_export ev d caller q"
| "app g ev d (Get_expense caller i) = expenses_get ev d caller i"
| "app g ev d (Post_login b) = auth_login ev d b"
| "app g ev d (Post_logout caller) = auth_logout ev d caller"
| "app g ev d (Get_me caller) = auth_me ev d caller"
| "app g ev d (Post_user caller b) = users_post ev d caller b"
| "app g ev d (Put_user caller i b) = users_put ev d caller i b"
| "app g ev d (Delete_user caller i) = users_delete ev d caller i"
| "app g ev d (Get_user caller i) = users_get ev d caller i"
| "app g ev d (Get_logs_export caller q) = audit_export ev d caller q"
| "app g ev d (Get_users caller q) = users_list ev d caller q"
| "app g ev d (Get_logs caller q) = audit_list ev d caller q"
| "app g ev d (Get_logs_stats caller q) = audit_stats ev d caller q"
| "app g ev d (Get_logs_recent caller) = audit_recent ev d caller"
| "app g ev d (Get_analytics_summary caller days) = analytics_summary ev d caller days"
| "app g ev d (Get_analytics_categories caller q) = analytics_categories ev d caller q"
| "app g ev d (Get_analytics_trends caller months) = analytics_trends ev d caller months"
| "app g ev d (Get_analytics_summary_old caller q) = analytics_summary_old ev d caller q"
| "app g ev d (Get_analytics_top_spenders caller limit q) =
     analytics_top_spenders ev d caller limit q"
| "app g ev d Get_health = health ev d"
| "app g ev d (Other_route path) = route_not_found d path"

section \<open>Vocabulary of the properties\<close>

text \<open>The expense rows of a response, when it is an expense list.\<close>

definition returned_expenses :: "outcome \<Rightarrow> expense list" where
  "returned_expenses out =
     (case out of Sent (Response _ (Expense_list rows _)) \<Rightarrow> map fst rows | _ \<Rightarrow> [])"

text \<open>The filters a client supplies, alone: category, status and the two date bounds.\<close>

definition query_matches :: "valid_query \<Rightarrow> expense \<Rightarrow> bool" where
  "query_matches v e =
     ((case v_category v of None \<Rightarrow> True | Some c \<Rightarrow> e_category e = c) \<and>
      (case v_status v of None \<Rightarrow> True | Some s \<Rightarrow> e_status e = s) \<and>
      (case v_startDate v of None \<Rightarrow> True | Some t \<Rightarrow> t \<le> e_date e) \<and>
      (case v_endDate v of None \<Rightarrow> True | Some t \<Rightarrow> e_date e \<le> t))"

text \<open>The page a query asks for, of a list of rows: page 1 and 20 rows when it does not say.\<close>

definition page_of :: "valid_query \<Rightarrow> 'a list \<Rightarrow> 'a list" where
  "page_of v xs =
     (let page = (case v_page v of None \<Rightarrow> 1 | Some p \<Rightarrow> p);
          limit = (case v_limit v of None \<Rightarrow> 20 | Some l \<Rightarrow> l)
      in take (nat limit) (drop (nat ((page - 1) * limit)) xs))"

text \<open>A response that reports success: a status code from 200 to 299.\<close>

definition ok :: "response \<Rightarrow> bool" where
  "ok r = (200 \<le> status_code r \<and> status_code r < 300)"

text \<open>A response that reports a failure: a status code of 400 or more.\<close>

definition failed :: "response \<Rightarrow> bool" where
  "failed r = (400 \<le> status_code r)"

text \<open>
  The requests that change state or export data: expense create, content update and status
  change, user create, update and delete, login, logout and the two CSV exports. All the
  others are plain reads.
\<close>

fun state_changing :: "request \<Rightarrow> bool" where
  "state_changing (Post_expense caller b file) = True"
| "state_changing (Put_expense caller i b file) = True"
| "state_changing (Put_expense_status caller i b) = True"
| "state_changing (Get_expenses_export caller q) = True"
| "state_changing (Post_login b) = True"
| "state_changing (Post_logout caller) = True"
| "state_changing (Post_user caller b) = True"
| "state_changing (Put_user caller i b) = True"
| "state_changing (Delete_user caller i) = True"
| "state_changing (Get_logs_export caller q) = True"
| "state_changing req = False"

text \<open>The two CSV exports.\<close>

fun is_export :: "request \<Rightarrow> bool" where
  "is_export (Get_expenses_export caller q) = True"
| "is_export (Get_logs_export caller q) = True"
| "is_export req = False"

text \<open>
  The response the client received, if any: also the one a handler sent before it threw.
\<close>

fun delivered :: "outcome \<Rightarrow> response option" where
  "delivered (Sent r) = Some r"
| "delivered (Sent_then_threw r) = Some r"
| "delivered (Next_error m) = None"

text \<open>
  The acting user of a request: the authenticated caller, and for a login the user the
  email belongs to.
\<close>

fun actor :: "db \<Rightarrow> request \<Rightarrow> string option" where
  "actor d (Get_expenses caller q) = Some (ru_id caller)"
| "actor d (Post_expense caller b file) = Some (ru_id caller)"
| "actor d (Put_expense caller i b file) = Some (ru_id caller)"
| "actor d (Put_expense_status caller i b) = Some (ru_id caller)"
| "actor d (Get_expenses_export caller q) = Some (ru_id caller)"
| "actor d (Get_expense caller i) = Some (ru_id caller)"
| "actor d (Post_login b) = map_option u_id (user_findUnique_email d (or_empty (l_email b)))"
| "actor d (Post_logout caller) = Some (ru_id caller)"
| "actor d (Get_me caller) = Some (ru_id caller)"
| "actor d (Post_user caller b) = Some (ru_id caller)"
| "actor d (Put_user caller i b) = Some (ru_id caller)"
| "actor d (Delete_user caller i) = Some (ru_id caller)"
| "actor d (Get_user caller i) = Some (ru_id caller)"
| "actor d (Get_logs_export caller q) = Some (ru_id caller)"
| "actor d (Get_users caller q) = Some (ru_id caller)"
| "actor d (Get_logs caller q) = Some (ru_id caller)"
| "actor d (Get_logs_stats caller q) = Some (ru_id caller)"
| "actor d (Get_logs_recent caller) = Some (ru_id caller)"
| "actor d (Get_analytics_summary caller days) = Some (ru_id caller)"
| "actor d (Get_analytics_categories caller q) = Some (ru_id caller)"
| "actor d (Get_analytics_trends caller months) = Some (ru_id caller)"
| "actor d (Get_analytics_summary_old caller q) = Some (ru_id caller)"
| "actor d (Get_analytics_top_spenders caller limit q) = Some (ru_id caller)"
| "actor d Get_health = None"
| "actor d (Other_route path) = None"

text \<open>
  The audit entries that are still there after a request: all of them, except that the
  deletion of a user takes the entries of that user with it.
\<close>

fun remaining_logs :: "db \<Rightarrow> request \<Rightarrow> auditLog list" where
  "remaining_logs d (Delete_user caller i) = filter (\<lambda>a. a_userId a \<noteq> i) (auditLogs d)"
| "remaining_logs d req = auditLogs d"

text \<open>The same environment, with the audit write succeeding.\<close>

definition audit_succeeds :: "env \<Rightarrow> env" where
  "audit_succeeds ev = ev\<lparr>fails := (fails ev)(AuditLog_create := False)\<rparr>"

text \<open>
  The credentials of a login body are invalid in a store: no user has the email, or the
  password does not match the stored hash of the user who has it.
\<close>

definition credentials_invalid :: "env \<Rightarrow> db \<Rightarrow> login_body \<Rightarrow> bool" where
  "credentials_invalid ev d b =
     (case user_findUnique_email d (or_empty (l_email b)) of
        None \<Rightarrow> True
      | Some u \<Rightarrow> \<not> bcrypt_compare ev (or_empty (l_password b)) (u_password u))"

definition upload_accepted :: "upload \<Rightarrow> bool" where
  "upload_accepted file = (case file of Rejected_file m \<Rightarrow> False | _ \<Rightarrow> True)"

section \<open>Example data\<close>

text \<open>
  A small store in the shape of the seed data: an administrator, two employees, three
  expenses and two audit entries; and an environment in which no call throws, with stand-ins
  for the library functions on the few strings the examples use.
\<close>

definition demo_env :: env where
  "demo_env =
     \<lparr>fails = (\<lambda>c. False), newId = ''n1'', newAuditId = ''l9'', now = 100,
      parseInt10 = (\<lambda>s. if s = ''1'' then Some 1 else if s = ''2'' then Some 2 else None),
      parseInt = (\<lambda>s. if s = ''1'' then Some 1 else if s = ''2'' then Some 2 else None),
      toNumber = (\<lambda>s. if s = ''1'' then Num 1 else if s = ''2'' then Num 2 else NaN),
      subtractDays = (\<lambda>t n. map_option (\<lambda>k. t - k) n),
      subtractMonths = (\<lambda>t n. map_option (\<lambda>k. t - 30 * k) n),
      previousDay = (\<lambda>t. t - 1),
      monthIndex = (\<lambda>t. t div 30),
      monthLabel = (\<lambda>m. ''month''),
      nodeEnv = Some ''development'',
      prismaSkip = (\<lambda>n. case n of
                      Num x \<Rightarrow> if x = of_int \<lfloor>x\<rfloor> \<and> 0 \<le> x then Some (nat \<lfloor>x\<rfloor>) else None
                    | _ \<Rightarrow> None),
      prismaTake = (\<lambda>t. t),
      parseFloat = (\<lambda>s. if s = ''150.50'' then Num (301 / 2) else NaN),
      parseDatetime = (\<lambda>s. if s = ''2024-01-15T00:00:00Z'' then Some 15 else None),
      newDate = (\<lambda>s. if s = ''2024-01-15T00:00:00Z'' then Some 15 else None),
      showNumber = (\<lambda>n. if n = 301 / 2 then ''150.5'' else ''3''),
      isEmail = (\<lambda>s. CHR ''@'' \<in> set s),
      bcrypt_hash = (\<lambda>p. ''hash:'' @ p),
      bcrypt_compare = (\<lambda>p h. h = ''hash:'' @ p),
      jwt_sign = (\<lambda>t. ''token:'' @ t_userId t)\<rparr>"

definition demo_audit_down :: env where
  "demo_audit_down = demo_env\<lparr>fails := (\<lambda>c. c = AuditLog_create)\<rparr>"

definition demo_admin :: req_user where
  "demo_admin = \<lparr>ru_id = ''u1'', ru_email = ''admin@example.com'', ru_name = ''Admin User'',
                  ru_role = ADMIN\<rparr>"

definition demo_employee :: req_user where
  "demo_employee = \<lparr>ru_id = ''u2'', ru_email = ''employee@example.com'',
                     ru_name = ''John Employee'', ru_role = EMPLOYEE\<rparr>"

definition demo_users :: "user list" where
  "demo_users =
     [\<lparr>u_id = ''u1'', u_email = ''admin@example.com'', u_password = ''hash:password123'',
       u_name = ''Admin User'', u_role = ADMIN, u_createdAt = 1\<rparr>,
      \<lparr>u_id = ''u2'', u_email = ''employee@example.com'', u_password = ''hash:password123'',
       u_name = ''John Employee'', u_role = EMPLOYEE, u_createdAt = 2\<rparr>,
      \<lparr>u_id = ''u3'', u_email = ''jane@example.com'', u_password = ''hash:secret99'',
       u_name = ''Jane Employee'', u_role = EMPLOYEE, u_createdAt = 3\<rparr>]"

definition demo_expenses :: "expense list" where
  "demo_expenses =
     [\<lparr>e_id = ''x1'', e_amount = 45, e_category = OFFICE_SUPPLIES, e_date = 10,
       e_notes = Some ''Notebooks and pens'', e_status = PENDING, e_rejectionReason = None,
       e_receiptUrl = None, e_userId = ''u2'', e_createdAt = 11\<rparr>,
      \<lparr>e_id = ''x2'', e_amount = 8999 / 100, e_category = SOFTWARE, e_date = 12,
       e_notes = None, e_status = APPROVED, e_rejectionReason = None,
       e_receiptUrl = None, e_userId = ''u3'', e_createdAt = 13\<rparr>,
      \<lparr>e_id = ''x3'', e_amount = 250, e_category = TRAVEL, e_date = 14,
       e_notes = Some ''Flight tickets'', e_status = REJECTED,
       e_rejectionReason = Some ''Not pre-approved'',
       e_receiptUrl = None, e_userId = ''u2'', e_createdAt = 15\<rparr>]"

definition demo_logs :: "auditLog list" where
  "demo_logs =
     [\<lparr>a_id = ''l1'', a_action = ''USER_LOGIN'', a_description = ''User jane@example.com logged in'',
       a_timestamp = 20, a_userId = ''u3''\<rparr>,
      \<lparr>a_id = ''l2'', a_action = ''USER_LOGIN'', a_description = ''User admin@example.com logged in'',
       a_timestamp = 21, a_userId = ''u1''\<rparr>]"

definition demo_db :: db where
  "demo_db = \<lparr>users = demo_users, expenses = demo_expenses, auditLogs = demo_logs\<rparr>"

definition no_query :: expense_query where
  "no_query = \<lparr>q_category = None, q_status = None, q_startDate = None, q_endDate = None,
                q_page = None, q_limit = None\<rparr>"

definition no_audit_query :: audit_query where
  "no_audit_query = \<lparr>aq_action = None, aq_userId = None, aq_startDate = None, aq_endDate = None\<rparr>"

definition no_filters :: valid_query where
  "no_filters = \<lparr>v_category = None, v_status = None, v_startDate = None, v_endDate = None,
                  v_page = None, v_limit = None\<rparr>"

definition demo_edit :: expense_body where
  "demo_edit = \<lparr>b_amount = Some ''150.50'', b_category = Some ''TRAVEL'',
                 b_date = Some ''2024-01-15T00:00:00Z'', b_notes = Some ''Uber rides''\<rparr>"

section \<open>Properties\<close>

subsection \<open>Helper facts about lists and the database operations\<close>

lemma fst_include_user: "fst (include_user d e) = e"
  by (simp add: include_user_def)

lemma map_fst_include_user: "map fst (map (include_user d) xs) = xs"
  by (induction xs) (simp_all add: fst_include_user)

lemma findMany_page_subset:
  "set (expense_findMany_page d w skip tk) \<subseteq> {e \<in> set (expenses d). where_matches w e}"
proof -
  have "set (expense_findMany_page d w skip tk)
        \<subseteq> set (sort_key (\<lambda>e. - e_createdAt e) (filter (where_matches w) (expenses d)))"
    unfolding expense_findMany_page_def
    by (meson set_take_subset set_drop_subset subset_trans)
  then show ?thesis by auto
qed

lemma validateExpenseFilter_Inl:
  "validateExpenseFilter ev q = Inl r \<Longrightarrow>
     r = Response 400 (Validation_body (expenseFilter_issues ev q))"
  by (simp add: validateExpenseFilter_def split: if_splits)

lemma find_map_same_id:
  assumes "\<And>e. e_id (g e) = e_id e"
  shows "find (\<lambda>e. e_id e = j) (map g xs) = map_option g (find (\<lambda>e. e_id e = j) xs)"
  by (induction xs) (simp_all add: assms)

lemma expense_findUnique_update:
  assumes "\<And>e. e_id (f e) = e_id e"
  shows "expense_findUnique (expense_update d i f) j =
         map_option (\<lambda>e. if e_id e = i then f e else e) (expense_findUnique d j)"
  unfolding expense_findUnique_def expense_update_def
  by (simp add: find_map_same_id assms)

lemma expense_findUnique_cong:
  "expenses d1 = expenses d2 \<Longrightarrow> expense_findUnique d1 j = expense_findUnique d2 j"
  by (simp add: expense_findUnique_def)

lemma requireAdmin_iff: "requireAdmin caller = None \<longleftrightarrow> ru_role caller = ADMIN"
  by (simp add: requireAdmin_def)

lemma requireAdmin_refuses: "ru_role caller \<noteq> ADMIN \<Longrightarrow> requireAdmin caller = Some forbidden"
  by (simp add: requireAdmin_def)

lemma expenses_auditLog_create:
  "expenses (auditLog_create ev d action description userId) = expenses d"
  by (simp add: auditLog_create_def)

lemma users_auditLog_create:
  "users (auditLog_create ev d action description userId) = users d"
  by (simp add: auditLog_create_def)

lemma auditLogs_auditLog_create:
  "auditLogs (auditLog_create ev d action description userId) =
     auditLogs d @ [\<lparr>a_id = newAuditId ev, a_action = action, a_description = description,
                    a_timestamp = now ev, a_userId = userId\<rparr>]"
  by (simp add: auditLog_create_def)

lemmas failure_responses =
  forbidden_def create_failed_def update_failed_def not_found_def status_failed_def
  export_failed_def login_failed_def user_create_failed_def user_update_failed_def
  user_not_found_def user_delete_failed_def audit_export_failed_def

lemma find_append_last:
  "find P (xs @ [x]) = (case find P xs of Some y \<Rightarrow> Some y
                        | None \<Rightarrow> if P x then Some x else None)"
  by (induction xs) simp_all

lemma find_Some_member: "find P xs = Some y \<Longrightarrow> y \<in> set xs \<and> P y"
  by (induction xs) (auto split: if_splits)

lemma find_filter_Some:
  assumes "find P (filter Q xs) = Some y"
  shows "y \<in> set xs \<and> P y"
  using find_Some_member [OF assms] by simp

lemma find_filter_distinct:
  assumes "distinct (map e_id xs)"
    and "find (\<lambda>e. e_id e = j) xs = Some e"
    and "find (\<lambda>e. e_id e = j) (filter Q xs) = Some e'"
  shows "e' = e"
proof -
  from assms(2) have "e \<in> set xs" "e_id e = j"
    by (auto dest: find_Some_member)
  moreover from assms(3) have "e' \<in> set xs" "e_id e' = j"
    by (auto dest: find_filter_Some)
  moreover from assms(1) have "inj_on e_id (set xs)"
    by (simp add: distinct_map)
  ultimately show ?thesis
    by (auto dest: inj_onD)
qed

lemma find_filter_None:
  assumes "find P xs = None"
  shows "find P (filter Q xs) = None"
  using assms by (auto simp: find_None_iff)

lemma expense_findUnique_id: "expense_findUnique d i = Some e \<Longrightarrow> e_id e = i"
  unfolding expense_findUnique_def by (auto dest: find_Some_member)

lemma user_findUnique_id_id: "user_findUnique_id d i = Some u \<Longrightarrow> u_id u = i"
  unfolding user_findUnique_id_def by (auto dest: find_Some_member)

subsection \<open>The example data\<close>

lemma demo_edit_parse:
  "expenseSchema_parse demo_env demo_edit =
     Inr \<lparr>x_amount = 301 / 2, x_amountText = ''150.50'', x_category = TRAVEL, x_date = 15,
          x_notes = Some ''Uber rides''\<rparr>"
  by (simp add: expenseSchema_parse_def demo_edit_def demo_env_def amount_transform_def
      category_of_string_def)

lemma demo_env_calls:
  "fails demo_env c = False" "newId demo_env = ''n1''" "newAuditId demo_env = ''l9''"
  "now demo_env = 100"
  by (simp_all add: demo_env_def)

subsection \<open>Row-level filtering of the expense list\<close>

lemma returned_expenses_list:
  "set (returned_expenses (fst (expenses_list ev d caller q)))
     \<subseteq> (case validateExpenseFilter ev q of Inl r \<Rightarrow> {}
         | Inr v \<Rightarrow> {e \<in> set (expenses d). where_matches (list_where caller v) e})"
proof (cases "validateExpenseFilter ev q")
  case (Inl r)
  then show ?thesis
    by (simp add: expenses_list_def returned_expenses_def validateExpenseFilter_Inl [OF Inl])
next
  case (Inr v)
  then show ?thesis
    using findMany_page_subset [of d "list_where caller v"]
    by (simp add: expenses_list_def returned_expenses_def Let_def map_fst_include_user
        del: map_map set_map)
qed

lemma employee_rows:
  assumes "ru_role caller = EMPLOYEE"
    and "e \<in> set (returned_expenses (fst (expenses_list ev d caller q)))"
  shows "e_userId e = ru_id caller"
proof -
  from assms(2) returned_expenses_list [of ev d caller q]
  obtain v where "where_matches (list_where caller v) e"
    by (auto split: sum.splits)
  with assms(1) show ?thesis
    by (simp add: where_matches_def list_where_def)
qed

lemma admin_where:
  "ru_role caller = ADMIN \<Longrightarrow> where_matches (list_where caller v) = query_matches v"
  by (auto simp: where_matches_def list_where_def query_matches_def fun_eq_iff)

lemma admin_rows:
  assumes "ru_role caller = ADMIN" "validateExpenseFilter ev q = Inr v"
    "\<not> fails ev Expense_findMany" "\<not> fails ev Expense_count"
  shows "returned_expenses (fst (expenses_list ev d caller q))
         = page_of v (sort_key (\<lambda>e. - e_createdAt e) (filter (query_matches v) (expenses d)))"
  using assms
  by (simp add: expenses_list_def returned_expenses_def Let_def admin_where
      expense_findMany_page_def page_of_def map_fst_include_user del: map_map)

text \<open>
  Claim C1. For a caller whose role is \<open>EMPLOYEE\<close>, every row that \<open>GET /api/expenses\<close>
  returns has the caller's id as its \<open>userId\<close>, whatever the query string is (and whether or
  not it passes validation or a database call throws). For a caller whose role is \<open>ADMIN\<close>
  no restriction on \<open>userId\<close> is applied: the rows returned are the requested page of all
  the rows that match the filters of the query, whoever owns them.
\<close>

theorem expenses_list_row_level_filter:
  "(ru_role caller = EMPLOYEE \<longrightarrow>
      (\<forall>e \<in> set (returned_expenses (fst (expenses_list ev d caller q))).
         e_userId e = ru_id caller)) \<and>
   (ru_role caller = ADMIN \<and> validateExpenseFilter ev q = Inr v \<and>
    \<not> fails ev Expense_findMany \<and> \<not> fails ev Expense_count \<longrightarrow>
      returned_expenses (fst (expenses_list ev d caller q)) =
        page_of v (sort_key (\<lambda>e. - e_createdAt e) (filter (query_matches v) (expenses d))))"
  using employee_rows admin_rows by blast

theorem expenses_list_row_level_filter_witness:
  "ru_role demo_employee = EMPLOYEE \<and>
   map e_id (returned_expenses (fst (expenses_list demo_env demo_db demo_employee no_query)))
     = [''x3'', ''x1''] \<and>
   list_all (\<lambda>e. e_userId e = ''u2'')
     (returned_expenses (fst (expenses_list demo_env demo_db demo_employee no_query))) \<and>
   ru_role demo_admin = ADMIN \<and> validateExpenseFilter demo_env no_query = Inr no_filters \<and>
   \<not> fails demo_env Expense_findMany \<and> \<not> fails demo_env Expense_count \<and>
   map e_userId (returned_expenses (fst (expenses_list demo_env demo_db demo_admin no_query)))
     = [''u2'', ''u3'', ''u2'']"
proof -
  have emp: "ru_role demo_employee = EMPLOYEE"
    by (simp add: demo_employee_def)
  have adm: "ru_role demo_admin = ADMIN"
    by (simp add: demo_admin_def)
  have val: "validateExpenseFilter demo_env no_query = Inr no_filters"
    by (simp add: validateExpenseFilter_def expenseFilter_issues_def optional_ok_def
        no_query_def no_filters_def)
  have calls: "\<not> fails demo_env Expense_findMany" "\<not> fails demo_env Expense_count"
    by (simp_all add: demo_env_def)
  have sorted_all: "sort_key (\<lambda>e. - e_createdAt e) (filter (query_matches no_filters) demo_expenses)
      = rev demo_expenses"
    by (simp add: query_matches_def no_filters_def demo_expenses_def)
  have rows_emp: "map e_id (returned_expenses (fst (expenses_list demo_env demo_db demo_employee no_query)))
      = [''x3'', ''x1'']"
    by (simp add: expenses_list_def val no_filters_def calls returned_expenses_def
        expense_findMany_page_def expense_count_def list_where_def where_matches_def
        demo_employee_def demo_db_def demo_expenses_def include_user_def)
  from expenses_list_row_level_filter [of demo_employee demo_env demo_db no_query no_filters] emp
  have own: "list_all (\<lambda>e. e_userId e = ''u2'')
      (returned_expenses (fst (expenses_list demo_env demo_db demo_employee no_query)))"
    by (simp add: demo_employee_def list_all_iff)
  from expenses_list_row_level_filter [of demo_admin demo_env demo_db no_query no_filters]
    adm val calls
  have "returned_expenses (fst (expenses_list demo_env demo_db demo_admin no_query))
      = page_of no_filters (rev demo_expenses)"
    by (simp add: sorted_all demo_db_def)
  then have rows_adm: "map e_userId (returned_expenses (fst (expenses_list demo_env demo_db demo_admin no_query)))
      = [''u2'', ''u3'', ''u2'']"
    by (simp add: page_of_def no_filters_def demo_expenses_def)
  from emp rows_emp own adm val calls rows_adm show ?thesis by simp
qed

subsection \<open>Editing an expense resets its status\<close>

lemma expense_findUnique_auditLog_create:
  "expense_findUnique (auditLog_create ev d action description userId) j = expense_findUnique d j"
  by (simp add: expense_findUnique_def auditLog_create_def)

lemma e_id_apply_updateData: "e_id (apply_updateData v file e) = e_id e"
  by (simp add: apply_updateData_def)

lemma e_status_apply_updateData: "e_status (apply_updateData v file e) = PENDING"
  by (simp add: apply_updateData_def)

lemma expenses_put_run:
  assumes "expense_findUnique d i = Some existing"
    and "ru_role caller = ADMIN \<or> e_userId existing = ru_id caller"
    and "expenseSchema_parse ev b = Inr v"
    and "upload_accepted file"
    and "\<not> fails ev Expense_findUnique" and "\<not> fails ev Expense_update"
  shows "expenses_put ev d caller i b file =
     (let d1 = expense_update d i (apply_updateData v file)
      in if fails ev AuditLog_create then (Sent update_failed, d1)
         else (Sent (Response 200 (Expense_message ''Expense updated successfully''
                 (include_user d1 (apply_updateData v file existing)))),
               auditLog_create ev d1 ''EXPENSE_UPDATED''
                 (''Expense '' @ i @ '' updated - '' @ rupee @ x_amountText v @
                  '' for '' @ category_to_string (x_category v))
                 (ru_id caller)))"
proof -
  from assms(2) have auth: "\<not> (ru_role caller = EMPLOYEE \<and> e_userId existing \<noteq> ru_id caller)"
    by auto
  from assms(4) show ?thesis
    by (cases "file") (simp_all add: expenses_put_def upload_accepted_def assms(1,3,5,6) auth Let_def)
qed

text \<open>
  Claim C2. For an existing expense and an authorized edit of its content fields through
  \<open>PUT /api/expenses/:id\<close> (the caller is an administrator or owns the expense, the body
  passes the expense schema, and the lookup and the update do not throw), the expense has
  the status \<open>PENDING\<close> after the operation, whatever its status was before and whether or
  not the audit write that follows succeeds; when that write succeeds the response is 200
  and carries the expense with status \<open>PENDING\<close>.
\<close>

theorem expenses_put_resets_to_pending:
  assumes "expense_findUnique d i = Some existing"
    and "ru_role caller = ADMIN \<or> e_userId existing = ru_id caller"
    and "expenseSchema_parse ev b = Inr v"
    and "upload_accepted file"
    and "\<not> fails ev Expense_findUnique" and "\<not> fails ev Expense_update"
  shows "(\<exists>e'. expense_findUnique (snd (expenses_put ev d caller i b file)) i = Some e' \<and>
               e_status e' = PENDING) \<and>
         (\<not> fails ev AuditLog_create \<longrightarrow>
            (\<exists>row. fst (expenses_put ev d caller i b file) =
                     Sent (Response 200 (Expense_message ''Expense updated successfully'' row)) \<and>
                   e_status (fst row) = PENDING))"
proof -
  note run = expenses_put_run [OF assms]
  have id: "e_id existing = i"
    using assms(1) by (rule expense_findUnique_id)
  have found: "expense_findUnique (expense_update d i (apply_updateData v file)) i
      = Some (apply_updateData v file existing)"
    by (simp add: expense_findUnique_update e_id_apply_updateData assms(1) id)
  have "expense_findUnique (snd (expenses_put ev d caller i b file)) i
      = Some (apply_updateData v file existing)"
    by (simp add: run Let_def found expense_findUnique_auditLog_create)
  moreover have "\<not> fails ev AuditLog_create \<Longrightarrow>
      fst (expenses_put ev d caller i b file) =
        Sent (Response 200 (Expense_message ''Expense updated successfully''
          (include_user (expense_update d i (apply_updateData v file))
             (apply_updateData v file existing))))"
    by (simp add: run Let_def)
  ultimately show ?thesis
    by (auto simp: e_status_apply_updateData fst_include_user)
qed

theorem expenses_put_resets_to_pending_witness:
  "map_option e_status (expense_findUnique demo_db ''x3'') = Some REJECTED \<and>
   map_option e_userId (expense_findUnique demo_db ''x3'') = Some (ru_id demo_employee) \<and>
   upload_accepted No_file \<and>
   \<not> fails demo_env Expense_findUnique \<and> \<not> fails demo_env Expense_update \<and>
   map_option e_status (expense_findUnique
      (snd (expenses_put demo_env demo_db demo_employee ''x3'' demo_edit No_file)) ''x3'')
     = Some PENDING"
proof -
  let ?x3 = "\<lparr>e_id = ''x3'', e_amount = 250, e_category = TRAVEL, e_date = 14,
       e_notes = Some ''Flight tickets'', e_status = REJECTED,
       e_rejectionReason = Some ''Not pre-approved'',
       e_receiptUrl = None, e_userId = ''u2'', e_createdAt = 15\<rparr>"
  have find: "expense_findUnique demo_db ''x3'' = Some ?x3"
    by (simp add: expense_findUnique_def demo_db_def demo_expenses_def)
  have auth: "ru_role demo_employee = ADMIN \<or> e_userId ?x3 = ru_id demo_employee"
    by (simp add: demo_employee_def)
  have up: "upload_accepted No_file"
    by (simp add: upload_accepted_def)
  have calls: "\<not> fails demo_env Expense_findUnique" "\<not> fails demo_env Expense_update"
    by (simp_all add: demo_env_def)
  from expenses_put_resets_to_pending [OF find auth demo_edit_parse up calls]
  have "map_option e_status (expense_findUnique
      (snd (expenses_put demo_env demo_db demo_employee ''x3'' demo_edit No_file)) ''x3'')
     = Some PENDING"
    by auto
  with find up calls show ?thesis
    by (simp add: demo_employee_def)
qed

subsection \<open>The status update\<close>

lemma e_id_apply_status: "e_id (apply_status st reason e) = e_id e"
  by (simp add: apply_status_def)

lemma e_status_apply_status: "e_status (apply_status st reason e) = st"
  by (simp add: apply_status_def)

lemma decision_of_cases:
  "decision_of s = Some st \<Longrightarrow> st = APPROVED \<or> st = REJECTED"
  by (auto simp: decision_of_def split: if_splits)

lemma expenses_put_status_refused:
  "ru_role caller \<noteq> ADMIN \<Longrightarrow> expenses_put_status ev d caller i b = (Sent forbidden, d)"
  by (simp add: expenses_put_status_def requireAdmin_refuses)

lemma expenses_put_status_db:
  "snd (expenses_put_status ev d caller i b) = d \<or>
   (ru_role caller = ADMIN \<and>
    (\<exists>st. decision_of (sb_status b) = Some st \<and>
       expenses (snd (expenses_put_status ev d caller i b)) =
       expenses (expense_update d i (apply_status st (sb_reason b)))))"
proof (cases "ru_role caller = ADMIN")
  case False
  then show ?thesis by (simp add: expenses_put_status_refused)
next
  case True
  then have pass: "requireAdmin caller = None"
    by (simp add: requireAdmin_iff)
  show ?thesis
  proof (cases "decision_of (sb_status b)")
    case None
    then show ?thesis by (simp add: expenses_put_status_def pass)
  next
    case (Some st)
    show ?thesis
    proof (cases "expense_findUnique d i")
      case None
      then show ?thesis by (simp add: expenses_put_status_def pass Some)
    next
      case (Some expense)
      with True \<open>decision_of (sb_status b) = Some st\<close> show ?thesis
        by (simp add: expenses_put_status_def pass Let_def auditLog_create_def)
    qed
  qed
qed

lemma expenses_put_status_run:
  assumes "ru_role caller = ADMIN" and "decision_of (sb_status b) = Some st"
    and "expense_findUnique d i = Some e"
    and "\<not> fails ev Expense_findUnique" and "\<not> fails ev Expense_update"
  shows "expenses (snd (expenses_put_status ev d caller i b)) =
         expenses (expense_update d i (apply_status st (sb_reason b)))"
  using assms
  by (simp add: expenses_put_status_def requireAdmin_def Let_def auditLog_create_def)

lemma expenses_put_status_change:
  assumes "expense_findUnique d j = Some e"
    and "expense_findUnique (snd (expenses_put_status ev d caller i b)) j = Some e'"
    and "e_status e' \<noteq> e_status e"
  shows "ru_role caller = ADMIN \<and> j = i \<and> decision_of (sb_status b) = Some (e_status e') \<and>
      (e_status e' = APPROVED \<or> e_status e' = REJECTED)"
proof -
  from assms have changed: "snd (expenses_put_status ev d caller i b) \<noteq> d"
    by auto
  with expenses_put_status_db [of ev d caller i b]
  obtain st where adm: "ru_role caller = ADMIN" and dec: "decision_of (sb_status b) = Some st"
    and ex: "expenses (snd (expenses_put_status ev d caller i b)) =
             expenses (expense_update d i (apply_status st (sb_reason b)))"
    by auto
  from assms(2)
  have "expense_findUnique (expense_update d i (apply_status st (sb_reason b))) j = Some e'"
    by (simp add: expense_findUnique_cong [OF ex])
  with assms(1) have e': "e' = (if e_id e = i then apply_status st (sb_reason b) e else e)"
    by (simp add: expense_findUnique_update e_id_apply_status)
  with assms(3) have "e_id e = i" and st: "e_status e' = st"
    by (auto simp: e_status_apply_status split: if_splits)
  moreover from assms(1) have "e_id e = j"
    by (rule expense_findUnique_id)
  ultimately have "j = i" by simp
  with adm dec st decision_of_cases [OF dec] show ?thesis
    by simp
qed

lemma expenses_put_status_sets:
  assumes "ru_role caller = ADMIN" and "decision_of (sb_status b) = Some st"
    and "expense_findUnique d i = Some e"
    and "\<not> fails ev Expense_findUnique" and "\<not> fails ev Expense_update"
  shows "map_option e_status (expense_findUnique (snd (expenses_put_status ev d caller i b)) i) = Some st"
proof -
  note ex = expenses_put_status_run [OF assms]
  from assms(3) have "e_id e = i"
    by (rule expense_findUnique_id)
  with assms(3) show ?thesis
    by (simp add: expense_findUnique_cong [OF ex] expense_findUnique_update e_id_apply_status
        e_status_apply_status)
qed

text \<open>
  Claim C3, as the code has it. \<open>PUT /api/expenses/:id/status\<close> is callable only by an
  administrator: any other caller is refused with 403 and nothing changes. The only
  statuses it ever writes are \<open>APPROVED\<close> and \<open>REJECTED\<close>, on the expense of the given id
  and as the body requests. It does not look at the current status: for an administrator,
  a body that asks for \<open>APPROVED\<close> or \<open>REJECTED\<close> and an existing expense (the lookup and
  the update not throwing), the expense has the requested status afterwards, whether it
  was \<open>PENDING\<close>, \<open>APPROVED\<close> or \<open>REJECTED\<close> before.
\<close>

theorem expenses_put_status_transitions:
  "(ru_role caller \<noteq> ADMIN \<longrightarrow>
      expenses_put_status ev d caller i b = (Sent (Response 403 Forbidden_body), d)) \<and>
   (expense_findUnique d j = Some e \<and>
    expense_findUnique (snd (expenses_put_status ev d caller i b)) j = Some e' \<and>
    e_status e' \<noteq> e_status e \<longrightarrow>
      ru_role caller = ADMIN \<and> j = i \<and> decision_of (sb_status b) = Some (e_status e') \<and>
      (e_status e' = APPROVED \<or> e_status e' = REJECTED)) \<and>
   (ru_role caller = ADMIN \<and> decision_of (sb_status b) = Some st \<and>
    expense_findUnique d i = Some e \<and>
    \<not> fails ev Expense_findUnique \<and> \<not> fails ev Expense_update \<longrightarrow>
      map_option e_status (expense_findUnique (snd (expenses_put_status ev d caller i b)) i) = Some st)"
proof -
  have "ru_role caller \<noteq> ADMIN \<Longrightarrow>
      expenses_put_status ev d caller i b = (Sent (Response 403 Forbidden_body), d)"
    by (simp add: expenses_put_status_refused forbidden_def)
  then show ?thesis
    using expenses_put_status_change [of d j e ev caller i b e']
      expenses_put_status_sets [of caller b st d i e ev]
    by blast
qed

theorem expenses_put_status_transitions_witness:
  "ru_role demo_employee \<noteq> ADMIN \<and>
   expenses_put_status demo_env demo_db demo_employee ''x1''
     \<lparr>sb_status = Some ''APPROVED'', sb_reason = None\<rparr> = (Sent (Response 403 Forbidden_body), demo_db) \<and>
   ru_role demo_admin = ADMIN \<and>
   decision_of (Some ''APPROVED'') = Some APPROVED \<and>
   map_option e_status (expense_findUnique demo_db ''x3'') = Some REJECTED \<and>
   \<not> fails demo_env Expense_findUnique \<and> \<not> fails demo_env Expense_update \<and>
   map_option e_status (expense_findUnique
      (snd (expenses_put_status demo_env demo_db demo_admin ''x3''
         \<lparr>sb_status = Some ''APPROVED'', sb_reason = None\<rparr>)) ''x3'') = Some APPROVED"
proof -
  let ?x3 = "\<lparr>e_id = ''x3'', e_amount = 250, e_category = TRAVEL, e_date = 14,
       e_notes = Some ''Flight tickets'', e_status = REJECTED,
       e_rejectionReason = Some ''Not pre-approved'',
       e_receiptUrl = None, e_userId = ''u2'', e_createdAt = 15\<rparr>"
  let ?b = "\<lparr>sb_status = Some ''APPROVED'', sb_reason = None\<rparr>"
  have find: "expense_findUnique demo_db ''x3'' = Some ?x3"
    by (simp add: expense_findUnique_def demo_db_def demo_expenses_def)
  have emp: "ru_role demo_employee \<noteq> ADMIN"
    by (simp add: demo_employee_def)
  have adm: "ru_role demo_admin = ADMIN"
    by (simp add: demo_admin_def)
  have dec: "decision_of (Some ''APPROVED'') = Some APPROVED"
    by (simp add: decision_of_def)
  have calls: "\<not> fails demo_env Expense_findUnique" "\<not> fails demo_env Expense_update"
    by (simp_all add: demo_env_def)
  from expenses_put_status_transitions [where caller = demo_employee and ev = demo_env
      and d = demo_db and i = "''x1''" and b = ?b] emp
  have refused: "expenses_put_status demo_env demo_db demo_employee ''x1'' ?b
      = (Sent (Response 403 Forbidden_body), demo_db)"
    by simp
  from expenses_put_status_transitions [where caller = demo_admin and ev = demo_env and d = demo_db
      and i = "''x3''" and b = ?b and st = APPROVED and e = ?x3]
    adm dec find calls
  have "map_option e_status (expense_findUnique
      (snd (expenses_put_status demo_env demo_db demo_admin ''x3'' ?b)) ''x3'') = Some APPROVED"
    by simp
  with emp refused adm dec find calls show ?thesis
    by simp
qed

text \<open>
  The claim as the spec words it, that an expense whose status is \<open>APPROVED\<close> or \<open>REJECTED\<close>
  is never changed by the status update, fails: an administrator asks for \<open>REJECTED\<close> on the
  approved expense \<open>x2\<close> of the example store, and the expense is \<open>REJECTED\<close> afterwards.
\<close>

theorem expenses_put_status_decided_counterexample:
  "ru_role demo_admin = ADMIN \<and>
   map_option e_status (expense_findUnique demo_db ''x2'') = Some APPROVED \<and>
   map_option e_status (expense_findUnique
      (snd (expenses_put_status demo_env demo_db demo_admin ''x2''
         \<lparr>sb_status = Some ''REJECTED'', sb_reason = None\<rparr>)) ''x2'') = Some REJECTED"
  by (simp add: expenses_put_status_def requireAdmin_def decision_of_def demo_admin_def demo_env_def
      demo_db_def demo_expenses_def expense_findUnique_def expense_update_def apply_status_def
      truthy_def auditLog_create_def Let_def)

subsection \<open>What each handler does to the expense table\<close>

lemma expenses_list_db: "snd (expenses_list ev d caller q) = d"
  by (simp add: expenses_list_def Let_def split: sum.splits)

lemma expenses_get_db: "snd (expenses_get ev d caller i) = d"
  by (simp add: expenses_get_def split: option.splits)

lemma auth_me_db: "snd (auth_me ev d caller) = d"
  by (simp add: auth_me_def)

lemma users_get_db: "snd (users_get ev d caller i) = d"
  by (simp add: users_get_def split: option.splits)

lemma users_list_db: "snd (users_list ev d caller q) = d"
  by (simp add: users_list_def Let_def split: option.splits)

lemma audit_list_db: "snd (audit_list ev d caller q) = d"
  by (simp add: audit_list_def Let_def split: option.splits)

lemma audit_stats_db: "snd (audit_stats ev d caller q) = d"
  by (simp add: audit_stats_def Let_def split: option.splits)

lemma audit_recent_db: "snd (audit_recent ev d caller) = d"
  by (simp add: audit_recent_def split: option.splits)

lemma analytics_summary_db: "snd (analytics_summary ev d caller days) = d"
  by (simp add: analytics_summary_def Let_def split: option.splits)

lemma analytics_categories_db: "snd (analytics_categories ev d caller q) = d"
  by (simp add: analytics_categories_def Let_def split: option.splits)

lemma analytics_trends_db: "snd (analytics_trends ev d caller months) = d"
  by (simp add: analytics_trends_def Let_def split: option.splits)

lemma analytics_summary_old_db: "snd (analytics_summary_old ev d caller q) = d"
  by (simp add: analytics_summary_old_def split: option.splits)

lemma analytics_top_spenders_db: "snd (analytics_top_spenders ev d caller limit q) = d"
  by (simp add: analytics_top_spenders_def Let_def split: option.splits)

lemma health_db: "snd (health ev d) = d"
  by (simp add: health_def)

lemma route_not_found_db: "snd (route_not_found d path) = d"
  by (simp add: route_not_found_def)

lemmas reads_db = expenses_list_db expenses_get_db auth_me_db users_get_db users_list_db
  audit_list_db audit_stats_db audit_recent_db analytics_summary_db analytics_categories_db
  analytics_trends_db analytics_summary_old_db analytics_top_spenders_db health_db
  route_not_found_db

lemma expenses_export_tables:
  "expenses (snd (expenses_export ev d caller q)) = expenses d \<and>
   users (snd (expenses_export ev d caller q)) = users d"
  by (simp add: expenses_export_def Let_def expenses_auditLog_create users_auditLog_create
      split: option.splits)

lemma audit_export_tables:
  "expenses (snd (audit_export ev d caller q)) = expenses d \<and>
   users (snd (audit_export ev d caller q)) = users d"
  by (simp add: audit_export_def Let_def expenses_auditLog_create users_auditLog_create
      split: option.splits)

lemma auth_login_tables:
  "expenses (snd (auth_login ev d b)) = expenses d \<and> users (snd (auth_login ev d b)) = users d"
  by (simp add: auth_login_def Let_def expenses_auditLog_create users_auditLog_create
      split: option.splits)

lemma auth_logout_tables:
  "expenses (snd (auth_logout ev d caller)) = expenses d \<and>
   users (snd (auth_logout ev d caller)) = users d"
  by (simp add: auth_logout_def expenses_auditLog_create users_auditLog_create)

lemma users_post_expenses: "expenses (snd (users_post ev d caller b)) = expenses d"
  by (simp add: users_post_def Let_def expenses_auditLog_create split: option.splits)

lemma users_put_expenses: "expenses (snd (users_put ev d caller i b)) = expenses d"
  by (simp add: users_put_def Let_def expenses_auditLog_create user_update_def
      split: option.splits)

lemma users_delete_expenses:
  "expenses (snd (users_delete ev d caller i)) = expenses d \<or>
   expenses (snd (users_delete ev d caller i)) = filter (\<lambda>e. e_userId e \<noteq> i) (expenses d)"
  by (simp add: users_delete_def Let_def expenses_auditLog_create user_delete_def
      split: option.splits)

lemma expenses_post_expenses:
  "expenses (snd (expenses_post allowed ev d caller b file)) = expenses d \<or>
   (\<exists>v. expenses (snd (expenses_post allowed ev d caller b file)) =
        expenses d @ [expense_create ev v (receiptUrl_of file) (ru_id caller)])"
  by (auto simp: expenses_post_def Let_def expenses_auditLog_create
      split: option.splits upload.splits sum.splits)

lemma expenses_put_expenses:
  "expenses (snd (expenses_put ev d caller i b file)) = expenses d \<or>
   (\<exists>v. expenses (snd (expenses_put ev d caller i b file)) =
        expenses (expense_update d i (apply_updateData v file)))"
  by (auto simp: expenses_put_def Let_def expenses_auditLog_create
      split: option.splits upload.splits sum.splits)

lemma e_rejectionReason_apply_updateData:
  "e_rejectionReason (apply_updateData v file e) = e_rejectionReason e"
  by (simp add: apply_updateData_def)

lemma e_rejectionReason_apply_status:
  "e_rejectionReason (apply_status st reason e) =
     (if truthy reason then reason else e_rejectionReason e)"
  by (simp add: apply_status_def)

lemma e_rejectionReason_expense_create:
  "e_rejectionReason (expense_create ev v receiptUrl userId) = None"
  by (simp add: expense_create_def)

text \<open>The five things a request can do to the expense table.\<close>

lemma app_expenses_cases:
  "expenses (snd (app allowed ev d req)) = expenses d \<or>
   (\<exists>x. expenses (snd (app allowed ev d req)) = expenses d @ [x] \<and> e_rejectionReason x = None) \<or>
   (\<exists>i v file. expenses (snd (app allowed ev d req)) =
        expenses (expense_update d i (apply_updateData v file))) \<or>
   (\<exists>caller i b st. req = Put_expense_status caller i b \<and> ru_role caller = ADMIN \<and>
        decision_of (sb_status b) = Some st \<and>
        expenses (snd (app allowed ev d req)) =
        expenses (expense_update d i (apply_status st (sb_reason b)))) \<or>
   (\<exists>i. expenses (snd (app allowed ev d req)) = filter (\<lambda>e. e_userId e \<noteq> i) (expenses d))"
proof (cases req)
  case (Get_expenses caller q)
  then show ?thesis by (simp add: expenses_list_db)
next
  case (Post_expense caller b f)
  then show ?thesis
    using expenses_post_expenses [of allowed ev d caller b f]
    by (auto simp: e_rejectionReason_expense_create)
next
  case (Put_expense caller i b f)
  then show ?thesis
    using expenses_put_expenses [of ev d caller i b f] by auto
next
  case (Put_expense_status caller i b)
  then show ?thesis
    using expenses_put_status_db [of ev d caller i b] by auto
next
  case (Get_expenses_export caller q)
  then show ?thesis by (simp add: expenses_export_tables)
next
  case (Get_expense caller i)
  then show ?thesis by (simp add: expenses_get_db)
next
  case (Post_login b)
  then show ?thesis by (simp add: auth_login_tables)
next
  case (Post_logout caller)
  then show ?thesis by (simp add: auth_logout_tables)
next
  case (Get_me caller)
  then show ?thesis by (simp add: auth_me_db)
next
  case (Post_user caller b)
  then show ?thesis by (simp add: users_post_expenses)
next
  case (Put_user caller i b)
  then show ?thesis by (simp add: users_put_expenses)
next
  case (Delete_user caller i)
  then show ?thesis
    using users_delete_expenses [of ev d caller i] by auto
next
  case (Get_user caller i)
  then show ?thesis by (simp add: users_get_db)
next
  case (Get_logs_export caller q)
  then show ?thesis by (simp add: audit_export_tables)
qed (simp_all add: reads_db)

lemma rejectionReason_change:
  assumes dist: "distinct (map e_id (expenses d))"
    and old: "expense_findUnique d j = Some e"
    and new: "expense_findUnique (snd (app allowed ev d req)) j = Some e'"
    and diff: "e_rejectionReason e' \<noteq> e_rejectionReason e"
  shows "\<exists>caller b. req = Put_expense_status caller j b \<and> ru_role caller = ADMIN \<and>
           truthy (sb_reason b) \<and> e_rejectionReason e' = sb_reason b \<and>
           decision_of (sb_status b) = Some (e_status e')"
proof -
  let ?d' = "snd (app allowed ev d req)"
  have idj: "e_id e = j"
    using old by (rule expense_findUnique_id)
  consider
      (same) "expenses ?d' = expenses d"
    | (created) x where "expenses ?d' = expenses d @ [x]"
    | (edited) i v f where "expenses ?d' = expenses (expense_update d i (apply_updateData v f))"
    | (decided) caller i b st where "req = Put_expense_status caller i b" "ru_role caller = ADMIN"
        "decision_of (sb_status b) = Some st"
        "expenses ?d' = expenses (expense_update d i (apply_status st (sb_reason b)))"
    | (deleted) i where "expenses ?d' = filter (\<lambda>e. e_userId e \<noteq> i) (expenses d)"
    using app_expenses_cases [of allowed ev d req] by blast
  then show ?thesis
  proof cases
    case same
    with old new have "e' = e"
      by (simp add: expense_findUnique_def)
    with diff show ?thesis by simp
  next
    case created
    with old new have "e' = e"
      by (simp add: expense_findUnique_def find_append_last)
    with diff show ?thesis by simp
  next
    case edited
    from new have "expense_findUnique (expense_update d i (apply_updateData v f)) j = Some e'"
      by (simp add: expense_findUnique_cong [OF edited])
    with old have "e' = (if e_id e = i then apply_updateData v f e else e)"
      by (simp add: expense_findUnique_update e_id_apply_updateData)
    with diff show ?thesis
      by (simp add: e_rejectionReason_apply_updateData split: if_splits)
  next
    case decided
    from new have "expense_findUnique (expense_update d i (apply_status st (sb_reason b))) j = Some e'"
      by (simp add: expense_findUnique_cong [OF decided(4)])
    with old have e': "e' = (if e_id e = i then apply_status st (sb_reason b) e else e)"
      by (simp add: expense_findUnique_update e_id_apply_status)
    with diff have hit: "e_id e = i" and e'': "e' = apply_status st (sb_reason b) e"
      by (auto split: if_splits)
    from diff e'' have "truthy (sb_reason b)" and "e_rejectionReason e' = sb_reason b"
      by (auto simp: e_rejectionReason_apply_status split: if_splits)
    moreover from e'' have "e_status e' = st"
      by (simp add: e_status_apply_status)
    ultimately show ?thesis
      using decided(1-3) hit idj by auto
  next
    case deleted
    from new have "find (\<lambda>e. e_id e = j) (filter (\<lambda>e. e_userId e \<noteq> i) (expenses d)) = Some e'"
      by (simp add: expense_findUnique_def deleted)
    with dist old have "e' = e"
      by (auto simp: expense_findUnique_def dest: find_filter_distinct)
    with diff show ?thesis by simp
  qed
qed

lemma rejectionReason_new:
  assumes old: "expense_findUnique d j = None"
    and new: "expense_findUnique (snd (app allowed ev d req)) j = Some e'"
  shows "e_rejectionReason e' = None"
proof -
  let ?d' = "snd (app allowed ev d req)"
  consider
      (same) "expenses ?d' = expenses d"
    | (created) x where "expenses ?d' = expenses d @ [x]" "e_rejectionReason x = None"
    | (updated) i f where "expenses ?d' = expenses (expense_update d i f)" "\<And>e. e_id (f e) = e_id e"
    | (deleted) i where "expenses ?d' = filter (\<lambda>e. e_userId e \<noteq> i) (expenses d)"
    using app_expenses_cases [of allowed ev d req] e_id_apply_updateData e_id_apply_status
    by metis
  then show ?thesis
  proof cases
    case same
    with old new show ?thesis
      by (simp add: expense_findUnique_def)
  next
    case created
    with old new show ?thesis
      by (auto simp: expense_findUnique_def find_append_last split: if_splits)
  next
    case updated
    from new have "expense_findUnique (expense_update d i f) j = Some e'"
      by (simp add: expense_findUnique_cong [OF updated(1)])
    with old updated(2) show ?thesis
      by (simp add: expense_findUnique_update)
  next
    case deleted
    with old new show ?thesis
      by (simp add: expense_findUnique_def find_filter_None)
  qed
qed

lemma rejectionReason_written:
  assumes "ru_role caller = ADMIN" and "decision_of (sb_status b) = Some st"
    and "truthy (sb_reason b)"
    and "expense_findUnique d i = Some e"
    and "\<not> fails ev Expense_findUnique" and "\<not> fails ev Expense_update"
  shows "map_option e_rejectionReason
           (expense_findUnique (snd (expenses_put_status ev d caller i b)) i) = Some (sb_reason b)"
proof -
  note ex = expenses_put_status_run [OF assms(1,2,4,5,6)]
  from assms(4) have "e_id e = i"
    by (rule expense_findUnique_id)
  with assms(3,4) show ?thesis
    by (simp add: expense_findUnique_cong [OF ex] expense_findUnique_update e_id_apply_status
        e_rejectionReason_apply_status)
qed

text \<open>
  Claim C4, as the code has it. The rejection reason of an expense is written by the
  status update alone, and only when the body carries a non-empty reason: whenever a
  request leaves an existing expense with another rejection reason than it had, the request
  is a status update of that expense by an administrator, its reason is not empty and is
  the new rejection reason, and the new status is the one it asks for, \<open>APPROVED\<close> or
  \<open>REJECTED\<close> alike. An expense that a request creates has no rejection reason. And a
  status update with a non-empty reason does write it, for either status.
\<close>

theorem rejectionReason_written_only_by_status_update:
  "(distinct (map e_id (expenses d)) \<and> expense_findUnique d j = Some e \<and>
    expense_findUnique (snd (app allowed ev d req)) j = Some e' \<and>
    e_rejectionReason e' \<noteq> e_rejectionReason e \<longrightarrow>
      (\<exists>caller b. req = Put_expense_status caller j b \<and> ru_role caller = ADMIN \<and>
          truthy (sb_reason b) \<and> e_rejectionReason e' = sb_reason b \<and>
          decision_of (sb_status b) = Some (e_status e'))) \<and>
   (expense_findUnique d j = None \<and>
    expense_findUnique (snd (app allowed ev d req)) j = Some e' \<longrightarrow>
      e_rejectionReason e' = None) \<and>
   (ru_role c = ADMIN \<and> decision_of (sb_status sb) = Some st \<and> truthy (sb_reason sb) \<and>
    expense_findUnique d i = Some e \<and>
    \<not> fails ev Expense_findUnique \<and> \<not> fails ev Expense_update \<longrightarrow>
      map_option e_rejectionReason
        (expense_findUnique (snd (expenses_put_status ev d c i sb)) i) = Some (sb_reason sb))"
  using rejectionReason_change [of d j e allowed ev req e']
    rejectionReason_new [of d j allowed ev req e']
    rejectionReason_written [of c sb st d i e ev]
  by blast

theorem rejectionReason_written_only_by_status_update_witness:
  "expense_findUnique demo_db ''n1'' = None \<and>
   map_option e_userId (expense_findUnique
      (snd (app (\<lambda>r. True) demo_env demo_db (Post_expense demo_employee demo_edit No_file)))
      ''n1'') = Some ''u2'' \<and>
   map_option e_rejectionReason (expense_findUnique
      (snd (app (\<lambda>r. True) demo_env demo_db (Post_expense demo_employee demo_edit No_file)))
      ''n1'') = Some None \<and>
   ru_role demo_admin = ADMIN \<and>
   decision_of (sb_status \<lparr>sb_status = Some ''REJECTED'', sb_reason = Some ''Duplicate''\<rparr>)
     = Some REJECTED \<and>
   truthy (sb_reason \<lparr>sb_status = Some ''REJECTED'', sb_reason = Some ''Duplicate''\<rparr>) \<and>
   map_option e_rejectionReason (expense_findUnique demo_db ''x1'') = Some None \<and>
   \<not> fails demo_env Expense_findUnique \<and> \<not> fails demo_env Expense_update \<and>
   map_option e_rejectionReason (expense_findUnique
      (snd (expenses_put_status demo_env demo_db demo_admin ''x1''
         \<lparr>sb_status = Some ''REJECTED'', sb_reason = Some ''Duplicate''\<rparr>)) ''x1'')
     = Some (Some ''Duplicate'')"
proof -
  let ?x1 = "\<lparr>e_id = ''x1'', e_amount = 45, e_category = OFFICE_SUPPLIES, e_date = 10,
       e_notes = Some ''Notebooks and pens'', e_status = PENDING, e_rejectionReason = None,
       e_receiptUrl = None, e_userId = ''u2'', e_createdAt = 11\<rparr>"
  let ?sb = "\<lparr>sb_status = Some ''REJECTED'', sb_reason = Some ''Duplicate''\<rparr>"
  let ?new = "expense_create demo_env
       \<lparr>x_amount = 301 / 2, x_amountText = ''150.50'', x_category = TRAVEL, x_date = 15,
        x_notes = Some ''Uber rides''\<rparr> None ''u2''"
  let ?post = "app (\<lambda>r. True) demo_env demo_db (Post_expense demo_employee demo_edit No_file)"
  have absent: "expense_findUnique demo_db ''n1'' = None"
    by (simp add: expense_findUnique_def demo_db_def demo_expenses_def)
  have created: "expense_findUnique (snd ?post) ''n1'' = Some ?new"
    by (simp add: expenses_post_def requireEmployee_def validateExpense_def demo_edit_parse
        receiptUrl_of_def demo_employee_def Let_def expense_findUnique_def auditLog_create_def
        demo_db_def demo_expenses_def expense_create_def demo_env_calls)
  have find: "expense_findUnique demo_db ''x1'' = Some ?x1"
    by (simp add: expense_findUnique_def demo_db_def demo_expenses_def)
  have adm: "ru_role demo_admin = ADMIN"
    by (simp add: demo_admin_def)
  have dec: "decision_of (sb_status ?sb) = Some REJECTED"
    by (simp add: decision_of_def)
  have reason: "truthy (sb_reason ?sb)"
    by (simp add: truthy_def)
  have calls: "\<not> fails demo_env Expense_findUnique" "\<not> fails demo_env Expense_update"
    by (simp_all add: demo_env_def)
  note main = rejectionReason_written_only_by_status_update
  from main [where d = demo_db and j = "''n1''" and allowed = "\<lambda>r. True" and ev = demo_env
      and req = "Post_expense demo_employee demo_edit No_file" and e' = ?new] absent created
  have none: "e_rejectionReason ?new = None"
    by blast
  from main [where c = demo_admin and sb = ?sb and st = REJECTED and d = demo_db
      and i = "''x1''" and e = ?x1 and ev = demo_env] adm dec reason find calls
  have written: "map_option e_rejectionReason (expense_findUnique
      (snd (expenses_put_status demo_env demo_db demo_admin ''x1'' ?sb)) ''x1'')
     = Some (Some ''Duplicate'')"
    by simp
  have owner: "e_userId ?new = ''u2''"
    by (simp add: expense_create_def)
  from absent created none owner adm dec reason find calls written show ?thesis
    by simp
qed

text \<open>
  The claim as the spec words it, that no operation whose resulting status is \<open>APPROVED\<close>
  writes a rejection reason, fails: an administrator approves the expense \<open>x1\<close> of the
  example store, which has no rejection reason, with the reason \<open>Looks fine\<close>; afterwards
  the expense is \<open>APPROVED\<close> and that text is its rejection reason.
\<close>

theorem rejectionReason_only_on_rejection_counterexample:
  "map_option e_rejectionReason (expense_findUnique demo_db ''x1'') = Some None \<and>
   map_option e_status (expense_findUnique
      (snd (expenses_put_status demo_env demo_db demo_admin ''x1''
         \<lparr>sb_status = Some ''APPROVED'', sb_reason = Some ''Looks fine''\<rparr>)) ''x1'')
     = Some APPROVED \<and>
   map_option e_rejectionReason (expense_findUnique
      (snd (expenses_put_status demo_env demo_db demo_admin ''x1''
         \<lparr>sb_status = Some ''APPROVED'', sb_reason = Some ''Looks fine''\<rparr>)) ''x1'')
     = Some (Some ''Looks fine'')"
  by (simp add: expenses_put_status_def requireAdmin_def decision_of_def demo_admin_def demo_env_def
      demo_db_def demo_expenses_def expense_findUnique_def expense_update_def apply_status_def
      truthy_def auditLog_create_def Let_def)

subsection \<open>One audit entry for every successful state-changing request\<close>

lemma expenses_post_audit:
  assumes "expenses_post allowed ev d caller b f = (Sent r, d')" and "ok r"
  shows "\<exists>a. auditLogs d' = auditLogs d @ [a] \<and> a_userId a = ru_id caller"
  using assms
  by (auto simp: expenses_post_def requireEmployee_def validateExpense_def ok_def Let_def
      failure_responses auditLogs_auditLog_create
      split: option.splits sum.splits if_splits upload.splits validation_error.splits)

lemma expenses_put_audit:
  assumes "expenses_put ev d caller i b f = (Sent r, d')" and "ok r"
  shows "\<exists>a. auditLogs d' = auditLogs d @ [a] \<and> a_userId a = ru_id caller"
  using assms
  by (auto simp: expenses_put_def expense_update_def ok_def Let_def
      failure_responses auditLogs_auditLog_create
      split: option.splits sum.splits if_splits upload.splits)

lemma expenses_put_status_audit:
  assumes "expenses_put_status ev d caller i b = (Sent r, d')" and "ok r"
  shows "\<exists>a. auditLogs d' = auditLogs d @ [a] \<and> a_userId a = ru_id caller"
  using assms
  by (auto simp: expenses_put_status_def requireAdmin_def expense_update_def ok_def Let_def
      failure_responses auditLogs_auditLog_create
      split: option.splits if_splits)

lemma expenses_export_audit:
  assumes "expenses_export ev d caller q = (Sent r, d')" and "ok r"
  shows "\<exists>a. auditLogs d' = auditLogs d @ [a] \<and> a_userId a = ru_id caller"
  using assms
  by (auto simp: expenses_export_def requireAdmin_def ok_def Let_def
      failure_responses auditLogs_auditLog_create
      split: option.splits if_splits)

lemma audit_export_audit:
  assumes "audit_export ev d caller q = (Sent r, d')" and "ok r"
  shows "\<exists>a. auditLogs d' = auditLogs d @ [a] \<and> a_userId a = ru_id caller"
  using assms
  by (auto simp: audit_export_def requireAdmin_def ok_def Let_def
      failure_responses auditLogs_auditLog_create
      split: option.splits if_splits)

lemma auth_login_audit:
  assumes "auth_login ev d b = (Sent r, d')" and "ok r"
  shows "\<exists>a. auditLogs d' = auditLogs d @ [a] \<and>
           Some (a_userId a) = map_option u_id (user_findUnique_email d (or_empty (l_email b)))"
  using assms
  by (auto simp: auth_login_def ok_def Let_def failure_responses auditLogs_auditLog_create
      split: option.splits if_splits)

lemma auth_logout_audit:
  assumes "auth_logout ev d caller = (Sent r, d')" and "ok r"
  shows "\<exists>a. auditLogs d' = auditLogs d @ [a] \<and> a_userId a = ru_id caller"
  using assms
  by (auto simp: auth_logout_def ok_def auditLogs_auditLog_create split: if_splits)

lemma users_post_audit:
  assumes "users_post ev d caller b = (Sent r, d')" and "ok r"
  shows "\<exists>a. auditLogs d' = auditLogs d @ [a] \<and> a_userId a = ru_id caller"
  using assms
  by (auto simp: users_post_def requireAdmin_def ok_def Let_def
      failure_responses auditLogs_auditLog_create
      split: option.splits if_splits)

lemma users_put_audit:
  assumes "users_put ev d caller i b = (Sent r, d')" and "ok r"
  shows "\<exists>a. auditLogs d' = auditLogs d @ [a] \<and> a_userId a = ru_id caller"
  using assms
  by (auto simp: users_put_def requireAdmin_def user_update_def ok_def Let_def
      failure_responses auditLogs_auditLog_create
      split: option.splits if_splits)

lemma users_delete_audit:
  assumes "users_delete ev d caller i = (Sent r, d')" and "ok r"
  shows "\<exists>a. auditLogs d' = filter (\<lambda>a. a_userId a \<noteq> i) (auditLogs d) @ [a] \<and>
           a_userId a = ru_id caller"
  using assms
  by (auto simp: users_delete_def requireAdmin_def user_delete_def ok_def Let_def
      failure_responses auditLogs_auditLog_create
      split: option.splits if_splits)

text \<open>
  The only runs in which a response goes out and the handler throws afterwards are the
  exports whose audit write fails: the file has been sent with status 200, no entry is
  written, and the store is as it was.
\<close>

lemma sent_then_threw_is_export:
  assumes "app allowed ev d req = (Sent_then_threw r, d')"
  shows "((\<exists>caller q. req = Get_expenses_export caller q) \<or>
          (\<exists>caller q. req = Get_logs_export caller q)) \<and>
         fails ev AuditLog_create \<and> d' = d \<and> status_code r = 200"
proof (cases req)
  case (Get_expenses caller q)
  with assms show ?thesis
    by (auto simp: expenses_list_def Let_def split: sum.splits if_splits)
next
  case (Post_expense caller b f)
  with assms show ?thesis
    by (auto simp: expenses_post_def requireEmployee_def validateExpense_def Let_def
        split: option.splits sum.splits if_splits upload.splits validation_error.splits)
next
  case (Put_expense caller i b f)
  with assms show ?thesis
    by (auto simp: expenses_put_def Let_def
        split: option.splits sum.splits if_splits upload.splits)
next
  case (Put_expense_status caller i b)
  with assms show ?thesis
    by (auto simp: expenses_put_status_def Let_def split: option.splits if_splits)
next
  case (Get_expenses_export caller q)
  with assms show ?thesis
    by (auto simp: expenses_export_def Let_def split: option.splits if_splits)
next
  case (Get_expense caller i)
  with assms show ?thesis
    by (auto simp: expenses_get_def split: option.splits if_splits)
next
  case (Post_login b)
  with assms show ?thesis
    by (auto simp: auth_login_def Let_def split: option.splits if_splits)
next
  case (Post_logout caller)
  with assms show ?thesis
    by (auto simp: auth_logout_def split: if_splits)
next
  case (Get_me caller)
  with assms show ?thesis
    by (auto simp: auth_me_def)
next
  case (Post_user caller b)
  with assms show ?thesis
    by (auto simp: users_post_def Let_def split: option.splits if_splits)
next
  case (Put_user caller i b)
  with assms show ?thesis
    by (auto simp: users_put_def Let_def split: option.splits if_splits)
next
  case (Delete_user caller i)
  with assms show ?thesis
    by (auto simp: users_delete_def Let_def split: option.splits if_splits)
next
  case (Get_user caller i)
  with assms show ?thesis
    by (auto simp: users_get_def split: option.splits if_splits)
next
  case (Get_logs_export caller q)
  with assms show ?thesis
    by (auto simp: audit_export_def Let_def split: option.splits if_splits)
next
  case (Get_users caller q)
  with assms show ?thesis
    by (auto simp: users_list_def Let_def split: option.splits if_splits)
next
  case (Get_logs caller q)
  with assms show ?thesis
    by (auto simp: audit_list_def Let_def split: option.splits if_splits)
next
  case (Get_logs_stats caller q)
  with assms show ?thesis
    by (auto simp: audit_stats_def Let_def split: option.splits if_splits)
next
  case (Get_logs_recent caller)
  with assms show ?thesis
    by (auto simp: audit_recent_def split: option.splits if_splits)
next
  case (Get_analytics_summary caller days)
  with assms show ?thesis
    by (auto simp: analytics_summary_def Let_def split: option.splits if_splits)
next
  case (Get_analytics_categories caller q)
  with assms show ?thesis
    by (auto simp: analytics_categories_def Let_def split: option.splits if_splits)
next
  case (Get_analytics_trends caller months)
  with assms show ?thesis
    by (auto simp: analytics_trends_def Let_def split: option.splits if_splits)
next
  case (Get_analytics_summary_old caller q)
  with assms show ?thesis
    by (auto simp: analytics_summary_old_def split: option.splits if_splits)
next
  case (Get_analytics_top_spenders caller limit q)
  with assms show ?thesis
    by (auto simp: analytics_top_spenders_def Let_def split: option.splits if_splits)
next
  case Get_health
  with assms show ?thesis
    by (simp add: health_def)
next
  case (Other_route path)
  with assms show ?thesis
    by (simp add: route_not_found_def)
qed

text \<open>
  A request that changes state, answered with success by a handler that ran to its end,
  has appended one entry of the acting user.
\<close>

lemma completed_request_one_audit_entry:
  assumes "app allowed ev d req = (Sent r, d')" and "ok r" and "state_changing req"
  shows "\<exists>a. auditLogs d' = remaining_logs d req @ [a] \<and> Some (a_userId a) = actor d req"
proof (cases req)
  case (Post_expense caller b f)
  with assms expenses_post_audit [of allowed ev d caller b f r d'] show ?thesis by simp
next
  case (Put_expense caller i b f)
  with assms expenses_put_audit [of ev d caller i b f r d'] show ?thesis by simp
next
  case (Put_expense_status caller i b)
  with assms expenses_put_status_audit [of ev d caller i b r d'] show ?thesis by simp
next
  case (Get_expenses_export caller q)
  with assms expenses_export_audit [of ev d caller q r d'] show ?thesis by simp
next
  case (Post_login b)
  with assms auth_login_audit [of ev d b r d'] show ?thesis by simp
next
  case (Post_logout caller)
  with assms auth_logout_audit [of ev d caller r d'] show ?thesis by simp
next
  case (Post_user caller b)
  with assms users_post_audit [of ev d caller b r d'] show ?thesis by simp
next
  case (Put_user caller i b)
  with assms users_put_audit [of ev d caller i b r d'] show ?thesis by simp
next
  case (Delete_user caller i)
  with assms users_delete_audit [of ev d caller i r d'] show ?thesis by simp
next
  case (Get_logs_export caller q)
  with assms audit_export_audit [of ev d caller q r d'] show ?thesis by simp
qed (use assms(3) in simp_all)

text \<open>A read-only request leaves the store as it was, whatever it answers.\<close>

lemma read_only_request_db:
  assumes "\<not> state_changing req"
  shows "snd (app allowed ev d req) = d"
  using assms by (cases req) (simp_all add: reads_db)

text \<open>An export whose audit write fails leaves the store as it was.\<close>

lemma export_audit_down_db:
  assumes "is_export req" and "fails ev AuditLog_create"
  shows "snd (app allowed ev d req) = d"
proof (cases req)
  case (Get_expenses_export caller q)
  with assms(2) show ?thesis
    by (simp add: expenses_export_def Let_def split: option.splits)
next
  case (Get_logs_export caller q)
  with assms(2) show ?thesis
    by (simp add: audit_export_def Let_def split: option.splits)
qed (use assms(1) in simp_all)

text \<open>The two exports of the example data, run while the audit write fails.\<close>

lemma demo_audit_down_calls:
  "fails demo_audit_down AuditLog_create"
  "\<not> fails demo_audit_down Expense_findMany" "\<not> fails demo_audit_down AuditLog_findMany"
  "newDate demo_audit_down = newDate demo_env"
  by (simp_all add: demo_audit_down_def demo_env_calls)

lemma demo_export_filters:
  "export_where demo_audit_down no_query =
     Some \<lparr>w_userId = None, w_category = None, w_status = None,
           w_date_gte = None, w_date_lte = None\<rparr>"
  "audit_export_where demo_audit_down no_audit_query =
     Some \<lparr>aw_action = None, aw_userId = None,
           aw_timestamp_gte = None, aw_timestamp_lte = None\<rparr>"
  by (simp_all add: export_where_def audit_export_where_def raw_filter_def no_query_def
      no_audit_query_def truthy_def)

lemma demo_expenses_export_audit_down:
  "app (\<lambda>r. True) demo_audit_down demo_db (Get_expenses_export demo_admin no_query) =
     (Sent_then_threw (Response 200 (Csv_expenses (map (include_user demo_db)
        (sort_key (\<lambda>e. - e_date e) (expenses demo_db))))), demo_db)"
  by (simp add: expenses_export_def requireAdmin_def demo_admin_def demo_export_filters
      demo_audit_down_calls where_matches_def Let_def include_user_def user_findUnique_id_def
      demo_db_def demo_users_def demo_expenses_def)

lemma demo_logs_export_audit_down:
  "app (\<lambda>r. True) demo_audit_down demo_db (Get_logs_export demo_admin no_audit_query) =
     (Sent_then_threw (Response 200 (Csv_auditLogs (map (include_log_user demo_db)
        (sort_key (\<lambda>a. - a_timestamp a) (auditLogs demo_db))))), demo_db)"
  by (simp add: audit_export_def requireAdmin_def demo_admin_def demo_export_filters
      demo_audit_down_calls audit_matches_def Let_def include_log_user_def
      user_findUnique_id_def demo_db_def demo_users_def demo_logs_def)

text \<open>
  Claim C5, as the code has it. Take any request that changes state (expense create,
  expense edit, status change, user create, update and delete, login, logout, and the two
  CSV exports) and to which the client received a response with a 2xx status, whether the
  handler then ran to its end or threw after sending. Unless the request is an export
  whose audit write fails, the audit log afterwards is the log before followed by exactly
  one new entry, attributed to the acting user; for the deletion of a user the log before
  is taken without the entries of the deleted user, which the database removes with the
  user. The exception is real: the two exports send their file with status 200 before
  they write the audit entry, so an export whose audit write fails has reported success
  and leaves the store, the audit log included, as it was. Every other request (the
  expense list, an expense by id, the current user, the user list, a user by id, the audit
  log list, its statistics and recent activity, the five analytics reads, the health check
  and the answer to an unknown route) leaves the whole store as it was, whatever the
  answer and whichever calls fail.
\<close>

theorem audit_entry_per_successful_request:
  "(delivered (fst (app allowed ev d req)) = Some r \<and> ok r \<and> state_changing req \<longrightarrow>
      (if is_export req \<and> fails ev AuditLog_create
       then snd (app allowed ev d req) = d
       else \<exists>a. auditLogs (snd (app allowed ev d req)) = remaining_logs d req @ [a] \<and>
                Some (a_userId a) = actor d req)) \<and>
   (\<not> state_changing req \<longrightarrow> snd (app allowed ev d req) = d)"
proof -
  have changing: "\<exists>a. auditLogs (snd (app allowed ev d req)) = remaining_logs d req @ [a] \<and>
                      Some (a_userId a) = actor d req"
    if got: "delivered (fst (app allowed ev d req)) = Some r" and good: "ok r"
      and sc: "state_changing req" and normal: "\<not> (is_export req \<and> fails ev AuditLog_create)"
  proof (cases "fst (app allowed ev d req)")
    case (Sent r')
    with got have "app allowed ev d req = (Sent r, snd (app allowed ev d req))"
      by (simp add: prod_eq_iff)
    from completed_request_one_audit_entry [OF this good sc] show ?thesis .
  next
    case (Next_error m)
    with got show ?thesis by simp
  next
    case (Sent_then_threw r')
    then have "app allowed ev d req = (Sent_then_threw r', snd (app allowed ev d req))"
      by (simp add: prod_eq_iff)
    from sent_then_threw_is_export [OF this] normal show ?thesis by auto
  qed
  from changing export_audit_down_db [of req ev allowed d] read_only_request_db [of req allowed ev d]
  show ?thesis by auto
qed

theorem audit_entry_per_successful_request_witness:
  "delivered (fst (app (\<lambda>r. True) demo_env demo_db (Delete_user demo_admin ''u3''))) =
     Some (Response 200 (Message ''User deleted successfully'')) \<and>
   ok (Response 200 (Message ''User deleted successfully'')) \<and>
   state_changing (Delete_user demo_admin ''u3'') \<and>
   \<not> is_export (Delete_user demo_admin ''u3'') \<and>
   map a_id (auditLogs demo_db) = [''l1'', ''l2''] \<and>
   map a_userId (auditLogs demo_db) = [''u3'', ''u1''] \<and>
   map a_id (auditLogs (snd (app (\<lambda>r. True) demo_env demo_db (Delete_user demo_admin ''u3''))))
     = [''l2'', ''l9''] \<and>
   map a_userId (auditLogs (snd (app (\<lambda>r. True) demo_env demo_db (Delete_user demo_admin ''u3''))))
     = [''u1'', ''u1''] \<and>
   \<not> state_changing (Get_analytics_summary demo_employee None) \<and>
   snd (app (\<lambda>r. True) demo_env demo_db (Get_analytics_summary demo_employee None)) = demo_db \<and>
   state_changing (Get_logs_export demo_admin no_audit_query) \<and>
   is_export (Get_logs_export demo_admin no_audit_query) \<and>
   fails demo_audit_down AuditLog_create \<and>
   map_option ok (delivered (fst (app (\<lambda>r. True) demo_audit_down demo_db
      (Get_logs_export demo_admin no_audit_query)))) = Some True \<and>
   snd (app (\<lambda>r. True) demo_audit_down demo_db (Get_logs_export demo_admin no_audit_query))
     = demo_db"
proof -
  let ?req = "Delete_user demo_admin ''u3''"
  let ?r = "Response 200 (Message ''User deleted successfully'')"
  let ?d' = "snd (app (\<lambda>r. True) demo_env demo_db ?req)"
  let ?read = "Get_analytics_summary demo_employee None"
  let ?export = "Get_logs_export demo_admin no_audit_query"
  let ?file = "Response 200 (Csv_auditLogs (map (include_log_user demo_db)
        (sort_key (\<lambda>a. - a_timestamp a) (auditLogs demo_db))))"
  note main = audit_entry_per_successful_request
  have sent: "delivered (fst (app (\<lambda>r. True) demo_env demo_db ?req)) = Some ?r"
    by (simp add: users_delete_def requireAdmin_def demo_admin_def demo_env_calls Let_def
        user_findUnique_id_def demo_db_def demo_users_def)
  have good: "ok ?r"
    by (simp add: ok_def)
  have kind: "state_changing ?req" "\<not> is_export ?req" "\<not> state_changing ?read"
    "state_changing ?export" "is_export ?export"
    by simp_all
  have down: "fails demo_audit_down AuditLog_create"
    by (rule demo_audit_down_calls)
  have csv: "delivered (fst (app (\<lambda>r. True) demo_audit_down demo_db ?export)) = Some ?file"
    "ok ?file"
    unfolding demo_logs_export_audit_down by (simp_all add: ok_def)
  have ids: "map a_id (auditLogs ?d') = [''l2'', ''l9'']"
    by (simp add: users_delete_def requireAdmin_def demo_admin_def demo_env_calls Let_def
        user_findUnique_id_def demo_db_def demo_users_def user_delete_def demo_logs_def
        auditLog_create_def)
  from main [of "\<lambda>r. True" demo_env demo_db ?req ?r] sent good kind
  obtain a where "auditLogs ?d' = remaining_logs demo_db ?req @ [a]"
    and "Some (a_userId a) = actor demo_db ?req"
    by auto
  then have owners: "map a_userId (auditLogs ?d') = [''u1'', ''u1'']"
    by (simp add: demo_db_def demo_logs_def demo_admin_def)
  have before: "map a_id (auditLogs demo_db) = [''l1'', ''l2'']"
    "map a_userId (auditLogs demo_db) = [''u3'', ''u1'']"
    by (simp_all add: demo_db_def demo_logs_def)
  from main [where req = ?read] kind
  have unread: "snd (app (\<lambda>r. True) demo_env demo_db ?read) = demo_db"
    by blast
  from main [of "\<lambda>r. True" demo_audit_down demo_db ?export ?file] csv kind down
  have kept: "snd (app (\<lambda>r. True) demo_audit_down demo_db ?export) = demo_db"
    by simp
  from sent good kind ids owners before unread down csv kept show ?thesis
    by simp
qed

text \<open>
  Claim C5, as the specification states it, does not hold for the exports. An
  administrator exports the expenses, and then the audit log, while the audit write fails:
  both requests change state in the sense of the claim, both are answered with status 200
  and the file, and the audit log is afterwards what it was before, with no new entry.
\<close>

theorem export_success_without_audit_entry_counterexample:
  "state_changing (Get_expenses_export demo_admin no_query) \<and>
   map_option status_code (delivered (fst (app (\<lambda>r. True) demo_audit_down demo_db
      (Get_expenses_export demo_admin no_query)))) = Some 200 \<and>
   auditLogs (snd (app (\<lambda>r. True) demo_audit_down demo_db
      (Get_expenses_export demo_admin no_query))) = auditLogs demo_db \<and>
   state_changing (Get_logs_export demo_admin no_audit_query) \<and>
   map_option status_code (delivered (fst (app (\<lambda>r. True) demo_audit_down demo_db
      (Get_logs_export demo_admin no_audit_query)))) = Some 200 \<and>
   auditLogs (snd (app (\<lambda>r. True) demo_audit_down demo_db
      (Get_logs_export demo_admin no_audit_query))) = auditLogs demo_db"
  unfolding demo_expenses_export_audit_down demo_logs_export_audit_down by simp

subsection \<open>A failed audit write does not undo the mutation\<close>

lemma audit_succeeds_fields:
  "fails (audit_succeeds ev) c = (c \<noteq> AuditLog_create \<and> fails ev c)"
  "newId (audit_succeeds ev) = newId ev"
  "now (audit_succeeds ev) = now ev"
  "parseFloat (audit_succeeds ev) = parseFloat ev"
  "parseDatetime (audit_succeeds ev) = parseDatetime ev"
  "isEmail (audit_succeeds ev) = isEmail ev"
  "bcrypt_hash (audit_succeeds ev) = bcrypt_hash ev"
  "bcrypt_compare (audit_succeeds ev) = bcrypt_compare ev"
  by (simp_all add: audit_succeeds_def)

lemma expenseSchema_parse_audit_succeeds:
  "expenseSchema_parse (audit_succeeds ev) b = expenseSchema_parse ev b"
  by (simp add: expenseSchema_parse_def expenseSchema_issues_def amount_transform_def
      audit_succeeds_fields cong: option.case_cong sum.case_cong)

lemma validateExpense_audit_succeeds:
  "validateExpense (audit_succeeds ev) b = validateExpense ev b"
  by (simp add: validateExpense_def expenseSchema_parse_audit_succeeds)

lemma expense_create_audit_succeeds:
  "expense_create (audit_succeeds ev) v receiptUrl userId = expense_create ev v receiptUrl userId"
  by (simp add: expense_create_def audit_succeeds_fields)

lemma userSchema_issues_audit_succeeds:
  "userSchema_issues (audit_succeeds ev) b = userSchema_issues ev b"
  "userUpdateSchema_issues (audit_succeeds ev) b = userUpdateSchema_issues ev b"
  by (simp_all add: userSchema_issues_def userUpdateSchema_issues_def audit_succeeds_fields
      cong: option.case_cong)

lemma apply_userUpdate_audit_succeeds:
  "apply_userUpdate (audit_succeeds ev) b existingUser = apply_userUpdate ev b existingUser"
  by (simp add: apply_userUpdate_def audit_succeeds_fields fun_eq_iff Let_def)

lemma expenses_post_tables:
  "users (snd (expenses_post allowed ev d caller b f)) =
     users (snd (expenses_post allowed (audit_succeeds ev) d caller b f)) \<and>
   expenses (snd (expenses_post allowed ev d caller b f)) =
     expenses (snd (expenses_post allowed (audit_succeeds ev) d caller b f))"
  by (auto simp: expenses_post_def validateExpense_audit_succeeds expense_create_audit_succeeds
      audit_succeeds_fields Let_def expenses_auditLog_create users_auditLog_create
      split: option.splits upload.splits sum.splits)

lemma expenses_put_tables:
  "users (snd (expenses_put ev d caller i b f)) =
     users (snd (expenses_put (audit_succeeds ev) d caller i b f)) \<and>
   expenses (snd (expenses_put ev d caller i b f)) =
     expenses (snd (expenses_put (audit_succeeds ev) d caller i b f))"
  by (auto simp: expenses_put_def expenseSchema_parse_audit_succeeds
      audit_succeeds_fields Let_def expenses_auditLog_create users_auditLog_create
      split: option.splits upload.splits sum.splits)

lemma expenses_put_status_tables:
  "users (snd (expenses_put_status ev d caller i b)) =
     users (snd (expenses_put_status (audit_succeeds ev) d caller i b)) \<and>
   expenses (snd (expenses_put_status ev d caller i b)) =
     expenses (snd (expenses_put_status (audit_succeeds ev) d caller i b))"
  by (auto simp: expenses_put_status_def audit_succeeds_fields Let_def expenses_auditLog_create
      users_auditLog_create split: option.splits)

lemma users_post_tables:
  "users (snd (users_post ev d caller b)) =
     users (snd (users_post (audit_succeeds ev) d caller b)) \<and>
   expenses (snd (users_post ev d caller b)) =
     expenses (snd (users_post (audit_succeeds ev) d caller b))"
  by (auto simp: users_post_def userSchema_issues_audit_succeeds audit_succeeds_fields Let_def
      expenses_auditLog_create users_auditLog_create split: option.splits)

lemma users_put_tables:
  "users (snd (users_put ev d caller i b)) =
     users (snd (users_put (audit_succeeds ev) d caller i b)) \<and>
   expenses (snd (users_put ev d caller i b)) =
     expenses (snd (users_put (audit_succeeds ev) d caller i b))"
  by (auto simp: users_put_def userSchema_issues_audit_succeeds audit_succeeds_fields Let_def
      apply_userUpdate_audit_succeeds expenses_auditLog_create users_auditLog_create
      split: option.splits)

lemma users_delete_tables:
  "users (snd (users_delete ev d caller i)) =
     users (snd (users_delete (audit_succeeds ev) d caller i)) \<and>
   expenses (snd (users_delete ev d caller i)) =
     expenses (snd (users_delete (audit_succeeds ev) d caller i))"
  by (auto simp: users_delete_def audit_succeeds_fields Let_def
      expenses_auditLog_create users_auditLog_create split: option.splits)

lemma app_tables:
  "users (snd (app allowed ev d req)) = users (snd (app allowed (audit_succeeds ev) d req)) \<and>
   expenses (snd (app allowed ev d req)) = expenses (snd (app allowed (audit_succeeds ev) d req))"
proof (cases req)
  case (Post_expense caller b f)
  then show ?thesis using expenses_post_tables [of allowed ev d caller b f] by simp
next
  case (Put_expense caller i b f)
  then show ?thesis using expenses_put_tables [of ev d caller i b f] by simp
next
  case (Put_expense_status caller i b)
  then show ?thesis using expenses_put_status_tables [of ev d caller i b] by simp
next
  case (Post_user caller b)
  then show ?thesis using users_post_tables [of ev d caller b] by simp
next
  case (Put_user caller i b)
  then show ?thesis using users_put_tables [of ev d caller i b] by simp
next
  case (Delete_user caller i)
  then show ?thesis using users_delete_tables [of ev d caller i] by simp
qed (simp_all add: reads_db
       expenses_export_tables audit_export_tables auth_login_tables auth_logout_tables)

lemma expenses_post_audit_fails:
  assumes "allowed (ru_role caller)" and "upload_accepted f"
    and "validateExpense ev b = Inr v"
    and "\<not> fails ev Expense_create" and "fails ev AuditLog_create"
  shows "expenses_post allowed ev d caller b f =
     (Sent (Response 500 (Error_body ''Failed to create expense''
        ''An error occurred while creating the expense'')),
      d\<lparr>expenses := expenses d @ [expense_create ev v (receiptUrl_of f) (ru_id caller)]\<rparr>)"
  using assms
  by (cases "f") (simp_all add: expenses_post_def requireEmployee_def upload_accepted_def
      create_failed_def Let_def)

text \<open>
  Claim C6. When the audit write that follows a primary mutation fails, the mutation stays.
  For every request, the users and the expenses after a run are the same whether the audit
  write of that run throws or succeeds: nothing written before it is undone. In particular
  an expense creation that gets past the guard, the upload and the validation, whose insert
  succeeds and whose audit write throws, answers 500 and leaves the new expense in the
  expense table, with the other tables as they were.
\<close>

theorem audit_failure_keeps_mutation:
  "users (snd (app allowed ev d req)) = users (snd (app allowed (audit_succeeds ev) d req)) \<and>
   expenses (snd (app allowed ev d req)) = expenses (snd (app allowed (audit_succeeds ev) d req)) \<and>
   (allowed (ru_role caller) \<and> upload_accepted f \<and> validateExpense ev b = Inr v \<and>
    \<not> fails ev Expense_create \<and> fails ev AuditLog_create \<longrightarrow>
      app allowed ev d (Post_expense caller b f) =
        (Sent (Response 500 (Error_body ''Failed to create expense''
           ''An error occurred while creating the expense'')),
         d\<lparr>expenses := expenses d @ [expense_create ev v (receiptUrl_of f) (ru_id caller)]\<rparr>))"
  using app_tables [of allowed ev d req] expenses_post_audit_fails [of allowed caller f ev b v d]
  by simp

theorem audit_failure_keeps_mutation_witness:
  "upload_accepted No_file \<and>
   \<not> fails demo_audit_down Expense_create \<and> fails demo_audit_down AuditLog_create \<and>
   fst (app (\<lambda>r. True) demo_audit_down demo_db (Post_expense demo_employee demo_edit No_file)) =
     Sent (Response 500 (Error_body ''Failed to create expense''
       ''An error occurred while creating the expense'')) \<and>
   map e_id (expenses (snd (app (\<lambda>r. True) demo_audit_down demo_db
      (Post_expense demo_employee demo_edit No_file)))) = [''x1'', ''x2'', ''x3'', ''n1''] \<and>
   auditLogs (snd (app (\<lambda>r. True) demo_audit_down demo_db
      (Post_expense demo_employee demo_edit No_file))) = demo_logs"
proof -
  let ?v = "\<lparr>x_amount = 301 / 2, x_amountText = ''150.50'', x_category = TRAVEL, x_date = 15,
          x_notes = Some ''Uber rides''\<rparr>"
  have up: "upload_accepted No_file"
    by (simp add: upload_accepted_def)
  have calls: "\<not> fails demo_audit_down Expense_create" "fails demo_audit_down AuditLog_create"
    by (simp_all add: demo_audit_down_def)
  have valid: "validateExpense demo_audit_down demo_edit = Inr ?v"
    by (simp add: validateExpense_def expenseSchema_parse_def demo_edit_def demo_audit_down_def
        demo_env_def amount_transform_def category_of_string_def)
  have new_id: "e_id (expense_create demo_audit_down ?v (receiptUrl_of No_file)
      (ru_id demo_employee)) = ''n1''"
    by (simp add: expense_create_def demo_audit_down_def demo_env_def)
  from audit_failure_keeps_mutation [where allowed = "\<lambda>r. True" and caller = demo_employee
      and f = No_file and ev = demo_audit_down and b = demo_edit and v = ?v and d = demo_db]
    up calls valid
  have run: "app (\<lambda>r. True) demo_audit_down demo_db (Post_expense demo_employee demo_edit No_file) =
      (Sent (Response 500 (Error_body ''Failed to create expense''
         ''An error occurred while creating the expense'')),
       demo_db\<lparr>expenses := expenses demo_db @
         [expense_create demo_audit_down ?v (receiptUrl_of No_file) (ru_id demo_employee)]\<rparr>)"
    by simp
  from up calls new_id show ?thesis
    unfolding run by (simp add: demo_db_def demo_expenses_def)
qed

subsection \<open>Login failures do not tell the cause\<close>

lemma auth_login_invalid:
  assumes "credentials_invalid ev d b"
  shows "auth_login ev d b =
     (if loginSchema_issues ev b \<noteq> [] then
        (Sent (Response 400 (Validation_body (loginSchema_issues ev b))), d)
      else if fails ev User_findUnique_email then (Sent login_failed, d)
      else (Sent (Response 401 (Error_body ''Invalid credentials''
              ''Email or password is incorrect'')), d))"
  using assms
  by (auto simp: auth_login_def credentials_invalid_def Let_def split: option.splits)

text \<open>
  Claim C7. A login attempt whose credentials are invalid, because no stored user has the
  email or because the password does not match the stored hash, and which gets as far as
  the check (the body passes the login schema and the lookup does not throw), is answered
  with status 401, error \<open>Invalid credentials\<close> and the same message, and changes nothing.
  The two causes cannot be told apart: for any request and any two stores in which its
  credentials are invalid, for whichever cause in each, the responses are equal.
\<close>

theorem auth_login_invalid_credentials:
  assumes "credentials_invalid ev d b"
  shows "(loginSchema_issues ev b = [] \<and> \<not> fails ev User_findUnique_email \<longrightarrow>
            auth_login ev d b =
              (Sent (Response 401 (Error_body ''Invalid credentials''
                 ''Email or password is incorrect'')), d)) \<and>
         (credentials_invalid ev d2 b \<longrightarrow> fst (auth_login ev d2 b) = fst (auth_login ev d b))"
  using assms by (simp add: auth_login_invalid)

theorem auth_login_invalid_credentials_witness:
  "user_findUnique_email demo_db ''nobody@example.com'' = None \<and>
   map_option u_id (user_findUnique_email demo_db ''jane@example.com'') = Some ''u3'' \<and>
   auth_login demo_env demo_db
      \<lparr>l_email = Some ''nobody@example.com'', l_password = Some ''secret99''\<rparr> =
     (Sent (Response 401 (Error_body ''Invalid credentials''
        ''Email or password is incorrect'')), demo_db) \<and>
   auth_login demo_env demo_db
      \<lparr>l_email = Some ''jane@example.com'', l_password = Some ''wrong''\<rparr> =
     (Sent (Response 401 (Error_body ''Invalid credentials''
        ''Email or password is incorrect'')), demo_db) \<and>
   fst (auth_login demo_env (demo_db\<lparr>users := []\<rparr>)
      \<lparr>l_email = Some ''jane@example.com'', l_password = Some ''wrong''\<rparr>) =
   fst (auth_login demo_env demo_db
      \<lparr>l_email = Some ''jane@example.com'', l_password = Some ''wrong''\<rparr>) \<and>
   fst (auth_login demo_env demo_db
      \<lparr>l_email = Some ''jane@example.com'', l_password = Some ''secret99''\<rparr>) =
     Sent (Response 200 (Login_body ''Login successful''
       \<lparr>ru_id = ''u3'', ru_email = ''jane@example.com'', ru_name = ''Jane Employee'',
        ru_role = EMPLOYEE\<rparr> ''token:u3''))"
proof -
  let ?nobody = "\<lparr>l_email = Some ''nobody@example.com'', l_password = Some ''secret99''\<rparr>"
  let ?wrong = "\<lparr>l_email = Some ''jane@example.com'', l_password = Some ''wrong''\<rparr>"
  have absent: "user_findUnique_email demo_db ''nobody@example.com'' = None"
    by (simp add: user_findUnique_email_def demo_db_def demo_users_def)
  have present: "map_option u_id (user_findUnique_email demo_db ''jane@example.com'') = Some ''u3''"
    by (simp add: user_findUnique_email_def demo_db_def demo_users_def)
  have inv1: "credentials_invalid demo_env demo_db ?nobody"
    by (simp add: credentials_invalid_def or_empty_def absent)
  have inv2: "credentials_invalid demo_env demo_db ?wrong"
    by (simp add: credentials_invalid_def or_empty_def user_findUnique_email_def demo_db_def
        demo_users_def demo_env_def)
  have wf: "loginSchema_issues demo_env ?nobody = []" "loginSchema_issues demo_env ?wrong = []"
    by (simp_all add: loginSchema_issues_def demo_env_def)
  have call: "\<not> fails demo_env User_findUnique_email"
    by (simp add: demo_env_calls)
  from auth_login_invalid_credentials [OF inv1, of demo_db] wf call
  have r1: "auth_login demo_env demo_db ?nobody =
     (Sent (Response 401 (Error_body ''Invalid credentials''
        ''Email or password is incorrect'')), demo_db)"
    by simp
  from auth_login_invalid_credentials [OF inv2, of demo_db] wf call
  have r2: "auth_login demo_env demo_db ?wrong =
     (Sent (Response 401 (Error_body ''Invalid credentials''
        ''Email or password is incorrect'')), demo_db)"
    by simp
  have good: "fst (auth_login demo_env demo_db
      \<lparr>l_email = Some ''jane@example.com'', l_password = Some ''secret99''\<rparr>) =
     Sent (Response 200 (Login_body ''Login successful''
       \<lparr>ru_id = ''u3'', ru_email = ''jane@example.com'', ru_name = ''Jane Employee'',
        ru_role = EMPLOYEE\<rparr> ''token:u3''))"
    by (simp add: auth_login_def loginSchema_issues_def or_empty_def user_findUnique_email_def
        demo_db_def demo_users_def demo_env_def Let_def)
  have inv3: "credentials_invalid demo_env (demo_db\<lparr>users := []\<rparr>) ?wrong"
    by (simp add: credentials_invalid_def user_findUnique_email_def)
  from auth_login_invalid_credentials [OF inv2, of "demo_db\<lparr>users := []\<rparr>"] inv3
  have same: "fst (auth_login demo_env (demo_db\<lparr>users := []\<rparr>) ?wrong) =
      fst (auth_login demo_env demo_db ?wrong)"
    by simp
  from absent present r1 r2 same good show ?thesis
    by simp
qed

subsection \<open>An administrator cannot delete their own account\<close>

lemma users_delete_self:
  assumes "ru_role caller = ADMIN"
  shows "snd (users_delete ev d caller (ru_id caller)) = d \<and>
         (\<exists>r. fst (users_delete ev d caller (ru_id caller)) = Sent r \<and> failed r) \<and>
         (\<not> fails ev User_findUnique_id \<and> user_findUnique_id d (ru_id caller) \<noteq> None \<longrightarrow>
            fst (users_delete ev d caller (ru_id caller)) =
              Sent (Response 400 (Error_body ''Cannot delete yourself''
                ''You cannot delete your own account'')))"
proof (cases "user_findUnique_id d (ru_id caller)")
  case None
  with assms show ?thesis
    by (simp add: users_delete_def requireAdmin_def failed_def user_delete_failed_def
        user_not_found_def)
next
  case (Some user)
  then have "u_id user = ru_id caller"
    by (rule user_findUnique_id_id)
  with assms Some show ?thesis
    by (simp add: users_delete_def requireAdmin_def failed_def user_delete_failed_def)
qed

lemma find_filter_out: "find (\<lambda>u. u_id u = i) (filter (\<lambda>u. u_id u \<noteq> i) xs) = None"
  by (simp add: find_None_iff)

lemma users_delete_other:
  assumes "ru_role caller = ADMIN" and "i \<noteq> ru_id caller"
    and "user_findUnique_id d i = Some u"
    and "\<not> fails ev User_findUnique_id" and "\<not> fails ev User_delete"
    and "\<not> fails ev AuditLog_create"
  shows "fst (users_delete ev d caller i) = Sent (Response 200 (Message ''User deleted successfully'')) \<and>
         users (snd (users_delete ev d caller i)) = filter (\<lambda>u. u_id u \<noteq> i) (users d) \<and>
         user_findUnique_id (snd (users_delete ev d caller i)) i = None"
proof -
  from assms(3) have "u_id u = i"
    by (rule user_findUnique_id_id)
  with assms show ?thesis
    by (simp add: users_delete_def requireAdmin_def Let_def user_delete_def
        users_auditLog_create user_findUnique_id_def find_filter_out)
qed

text \<open>
  Claim C8. For a caller whose role is \<open>ADMIN\<close>, \<open>DELETE /api/users/:id\<close> with the caller's
  own id fails and deletes nothing: the response is an error, the whole store is as it was
  (the caller's user row with it), and when the lookup finds the caller the answer is 400,
  \<open>Cannot delete yourself\<close>. The deletion of another user who exists succeeds (the calls
  not throwing): the answer is 200 and the user is no longer in the store, while every
  other user row is kept.
\<close>

theorem users_delete_self_refused:
  assumes "ru_role caller = ADMIN"
  shows "snd (users_delete ev d caller (ru_id caller)) = d \<and>
         (\<exists>r. fst (users_delete ev d caller (ru_id caller)) = Sent r \<and> failed r) \<and>
         (\<not> fails ev User_findUnique_id \<and> user_findUnique_id d (ru_id caller) \<noteq> None \<longrightarrow>
            fst (users_delete ev d caller (ru_id caller)) =
              Sent (Response 400 (Error_body ''Cannot delete yourself''
                ''You cannot delete your own account''))) \<and>
         (i \<noteq> ru_id caller \<and> user_findUnique_id d i = Some u \<and>
          \<not> fails ev User_findUnique_id \<and> \<not> fails ev User_delete \<and>
          \<not> fails ev AuditLog_create \<longrightarrow>
            fst (users_delete ev d caller i) =
              Sent (Response 200 (Message ''User deleted successfully'')) \<and>
            users (snd (users_delete ev d caller i)) = filter (\<lambda>u. u_id u \<noteq> i) (users d) \<and>
            user_findUnique_id (snd (users_delete ev d caller i)) i = None)"
  using users_delete_self [OF assms, of ev d] users_delete_other [OF assms, of i d u ev]
  by simp

theorem users_delete_self_refused_witness:
  "ru_role demo_admin = ADMIN \<and>
   map_option u_id (user_findUnique_id demo_db (ru_id demo_admin)) = Some ''u1'' \<and>
   users_delete demo_env demo_db demo_admin ''u1'' =
     (Sent (Response 400 (Error_body ''Cannot delete yourself''
        ''You cannot delete your own account'')), demo_db) \<and>
   map_option u_id (user_findUnique_id demo_db ''u3'') = Some ''u3'' \<and>
   fst (users_delete demo_env demo_db demo_admin ''u3'') =
     Sent (Response 200 (Message ''User deleted successfully'')) \<and>
   map u_id (users (snd (users_delete demo_env demo_db demo_admin ''u3''))) = [''u1'', ''u2'']"
proof -
  let ?u3 = "\<lparr>u_id = ''u3'', u_email = ''jane@example.com'', u_password = ''hash:secret99'',
       u_name = ''Jane Employee'', u_role = EMPLOYEE, u_createdAt = 3\<rparr>"
  have adm: "ru_role demo_admin = ADMIN" and self: "ru_id demo_admin = ''u1''"
    by (simp_all add: demo_admin_def)
  have me: "map_option u_id (user_findUnique_id demo_db ''u1'') = Some ''u1''"
    by (simp add: user_findUnique_id_def demo_db_def demo_users_def)
  have other: "user_findUnique_id demo_db ''u3'' = Some ?u3"
    by (simp add: user_findUnique_id_def demo_db_def demo_users_def)
  have calls: "\<not> fails demo_env User_findUnique_id" "\<not> fails demo_env User_delete"
    "\<not> fails demo_env AuditLog_create"
    by (simp_all add: demo_env_calls)
  note main = users_delete_self_refused [OF adm, of demo_env demo_db "''u3''" ?u3]
  from main me calls have refused: "users_delete demo_env demo_db demo_admin ''u1'' =
     (Sent (Response 400 (Error_body ''Cannot delete yourself''
        ''You cannot delete your own account'')), demo_db)"
    by (auto simp: self prod_eq_iff)
  from main other calls
  have deleted: "fst (users_delete demo_env demo_db demo_admin ''u3'') =
      Sent (Response 200 (Message ''User deleted successfully''))"
    and rest: "users (snd (users_delete demo_env demo_db demo_admin ''u3''))
      = filter (\<lambda>u. u_id u \<noteq> ''u3'') (users demo_db)"
    by (simp_all add: self)
  from rest have kept: "map u_id (users (snd (users_delete demo_env demo_db demo_admin ''u3'')))
      = [''u1'', ''u2'']"
    by (simp add: demo_db_def demo_users_def)
  from adm me refused other deleted kept show ?thesis
    by (simp add: self)
qed

subsection \<open>Fetching one expense: existence is checked before ownership\<close>

text \<open>
  Claim C9. \<open>GET /api/expenses/:id\<close> looks the expense up before it looks at the owner
  (the lookup not throwing): an id that matches no expense is answered with 404 for every
  caller, an \<open>EMPLOYEE\<close> included; an existing expense of another user is answered with
  403 for an \<open>EMPLOYEE\<close>. The two answers differ, so they tell an \<open>EMPLOYEE\<close> whether the
  id of another user's expense exists. Neither changes the store.
\<close>

theorem expenses_get_not_found_before_forbidden:
  assumes "\<not> fails ev Expense_findUnique"
  shows "(expense_findUnique d i = None \<longrightarrow>
            expenses_get ev d caller i =
              (Sent (Response 404 (Error_body ''Expense not found''
                 ''The requested expense does not exist'')), d)) \<and>
         (expense_findUnique d i = Some e \<and> ru_role caller = EMPLOYEE \<and>
          e_userId e \<noteq> ru_id caller \<longrightarrow>
            expenses_get ev d caller i =
              (Sent (Response 403 (Error_body ''Access denied''
                 ''You do not have permission to view this expense'')), d)) \<and>
         (expense_findUnique d i = None \<and> expense_findUnique d j = Some e \<and>
          ru_role caller = EMPLOYEE \<and> e_userId e \<noteq> ru_id caller \<longrightarrow>
            fst (expenses_get ev d caller i) \<noteq> fst (expenses_get ev d caller j))"
  using assms by (simp add: expenses_get_def not_found_def)

theorem expenses_get_not_found_before_forbidden_witness:
  "\<not> fails demo_env Expense_findUnique \<and> ru_role demo_employee = EMPLOYEE \<and>
   expense_findUnique demo_db ''x7'' = None \<and>
   map_option e_userId (expense_findUnique demo_db ''x2'') = Some ''u3'' \<and>
   ru_id demo_employee = ''u2'' \<and>
   expenses_get demo_env demo_db demo_employee ''x7'' =
     (Sent (Response 404 (Error_body ''Expense not found''
        ''The requested expense does not exist'')), demo_db) \<and>
   expenses_get demo_env demo_db demo_employee ''x2'' =
     (Sent (Response 403 (Error_body ''Access denied''
        ''You do not have permission to view this expense'')), demo_db) \<and>
   fst (expenses_get demo_env demo_db demo_employee ''x7'') \<noteq>
   fst (expenses_get demo_env demo_db demo_employee ''x2'')"
proof -
  let ?x2 = "\<lparr>e_id = ''x2'', e_amount = 8999 / 100, e_category = SOFTWARE, e_date = 12,
       e_notes = None, e_status = APPROVED, e_rejectionReason = None,
       e_receiptUrl = None, e_userId = ''u3'', e_createdAt = 13\<rparr>"
  have call: "\<not> fails demo_env Expense_findUnique"
    by (simp add: demo_env_calls)
  have emp: "ru_role demo_employee = EMPLOYEE" "ru_id demo_employee = ''u2''"
    by (simp_all add: demo_employee_def)
  have absent: "expense_findUnique demo_db ''x7'' = None"
    by (simp add: expense_findUnique_def demo_db_def demo_expenses_def)
  have present: "expense_findUnique demo_db ''x2'' = Some ?x2"
    by (simp add: expense_findUnique_def demo_db_def demo_expenses_def)
  from expenses_get_not_found_before_forbidden [OF call, of demo_db "''x7''" demo_employee] absent
  have r404: "expenses_get demo_env demo_db demo_employee ''x7'' =
     (Sent (Response 404 (Error_body ''Expense not found''
        ''The requested expense does not exist'')), demo_db)"
    by simp
  from expenses_get_not_found_before_forbidden [OF call, of demo_db "''x2''" demo_employee ?x2]
    present emp
  have r403: "expenses_get demo_env demo_db demo_employee ''x2'' =
     (Sent (Response 403 (Error_body ''Access denied''
        ''You do not have permission to view this expense'')), demo_db)"
    by simp
  have other: "e_userId ?x2 \<noteq> ru_id demo_employee"
    by (simp add: demo_employee_def)
  from expenses_get_not_found_before_forbidden [OF call, of demo_db "''x7''" demo_employee
      ?x2 "''x2''"] absent present emp(1) other
  have differ: "fst (expenses_get demo_env demo_db demo_employee ''x7'') \<noteq>
      fst (expenses_get demo_env demo_db demo_employee ''x2'')"
    by blast
  from present have owner: "map_option e_userId (expense_findUnique demo_db ''x2'') = Some ''u3''"
    by simp
  from call emp absent owner r404 r403 differ show ?thesis
    by blast
qed

subsection \<open>The user update leaves what it is not given\<close>

lemma find_map_same_u_id:
  assumes "\<And>u. u_id (g u) = u_id u"
  shows "find (\<lambda>u. u_id u = j) (map g xs) = map_option g (find (\<lambda>u. u_id u = j) xs)"
  by (induction xs) (simp_all add: assms)

lemma filter_map_others:
  "filter (\<lambda>u. u_id u \<noteq> i) (map (\<lambda>u. if u_id u = i then g u else u) xs) =
   filter (\<lambda>u. u_id u \<noteq> i) xs" if "\<And>u. u_id (g u) = u_id u"
  by (induction xs) (simp_all add: that)

lemma map_u_id_update:
  "map u_id (map (\<lambda>u. if u_id u = i then g u else u) xs) = map u_id xs"
  if "\<And>u. u_id (g u) = u_id u"
  by (induction xs) (simp_all add: that)

lemma u_id_apply_userUpdate: "u_id (apply_userUpdate ev b existingUser u) = u_id u"
  by (simp add: apply_userUpdate_def Let_def)

lemma apply_userUpdate_kept:
  "u_createdAt (apply_userUpdate ev b u u) = u_createdAt u"
  "\<not> truthy (ub_password b) \<Longrightarrow> u_password (apply_userUpdate ev b u u) = u_password u"
  "\<not> truthy (ub_email b) \<Longrightarrow> u_email (apply_userUpdate ev b u u) = u_email u"
  "\<not> truthy (ub_name b) \<Longrightarrow> u_name (apply_userUpdate ev b u u) = u_name u"
  "\<not> truthy (ub_role b) \<Longrightarrow> u_role (apply_userUpdate ev b u u) = u_role u"
  by (simp_all add: apply_userUpdate_def Let_def)

lemma users_put_users:
  "users (snd (users_put ev d caller i b)) = users d \<or>
   (\<exists>existingUser. user_findUnique_id d i = Some existingUser \<and>
      users (snd (users_put ev d caller i b)) =
      map (\<lambda>u. if u_id u = i then apply_userUpdate ev b existingUser u else u) (users d))"
  by (auto simp: users_put_def Let_def user_update_def users_auditLog_create
      split: option.splits)

lemma users_put_others:
  "filter (\<lambda>u. u_id u \<noteq> i) (users (snd (users_put ev d caller i b))) =
     filter (\<lambda>u. u_id u \<noteq> i) (users d) \<and>
   map u_id (users (snd (users_put ev d caller i b))) = map u_id (users d)"
  using users_put_users [of ev d caller i b]
  by (auto simp: filter_map_others map_u_id_update u_id_apply_userUpdate)

lemma users_put_target:
  assumes "user_findUnique_id d i = Some u"
  shows "\<exists>u'. user_findUnique_id (snd (users_put ev d caller i b)) i = Some u' \<and>
            u_id u' = u_id u \<and> u_createdAt u' = u_createdAt u \<and>
            (\<not> truthy (ub_password b) \<longrightarrow> u_password u' = u_password u) \<and>
            (\<not> truthy (ub_email b) \<longrightarrow> u_email u' = u_email u) \<and>
            (\<not> truthy (ub_name b) \<longrightarrow> u_name u' = u_name u) \<and>
            (\<not> truthy (ub_role b) \<longrightarrow> u_role u' = u_role u)"
proof -
  from assms have idu: "u_id u = i"
    by (rule user_findUnique_id_id)
  from users_put_users [of ev d caller i b] assms
  consider (same) "users (snd (users_put ev d caller i b)) = users d"
    | (updated) "users (snd (users_put ev d caller i b)) =
        map (\<lambda>x. if u_id x = i then apply_userUpdate ev b u x else x) (users d)"
    by auto
  then show ?thesis
  proof cases
    case same
    with assms show ?thesis
      by (simp add: user_findUnique_id_def)
  next
    case updated
    have "user_findUnique_id (snd (users_put ev d caller i b)) i
        = map_option (\<lambda>x. if u_id x = i then apply_userUpdate ev b u x else x)
            (user_findUnique_id d i)"
      unfolding user_findUnique_id_def updated
      by (rule find_map_same_u_id) (simp add: u_id_apply_userUpdate)
    with assms idu
    have "user_findUnique_id (snd (users_put ev d caller i b)) i = Some (apply_userUpdate ev b u u)"
      by simp
    then show ?thesis
      by (simp add: u_id_apply_userUpdate apply_userUpdate_kept)
  qed
qed

text \<open>
  Claim C10. \<open>PUT /api/users/:id\<close> leaves every field it is not given as it was. Whatever
  the outcome of the request, the rows of all other users are the same before and after,
  no row is added or removed, and the expenses are untouched; and the user of the given id
  keeps its id and creation time, keeps its password hash when no password (or an empty
  one) is supplied, and keeps its email, its name and its role when the field is absent or
  empty.
\<close>

theorem users_put_frame:
  "filter (\<lambda>u. u_id u \<noteq> i) (users (snd (users_put ev d caller i b))) =
     filter (\<lambda>u. u_id u \<noteq> i) (users d) \<and>
   map u_id (users (snd (users_put ev d caller i b))) = map u_id (users d) \<and>
   expenses (snd (users_put ev d caller i b)) = expenses d \<and>
   (user_findUnique_id d i = Some u \<longrightarrow>
      (\<exists>u'. user_findUnique_id (snd (users_put ev d caller i b)) i = Some u' \<and>
            u_id u' = u_id u \<and> u_createdAt u' = u_createdAt u \<and>
            (\<not> truthy (ub_password b) \<longrightarrow> u_password u' = u_password u) \<and>
            (\<not> truthy (ub_email b) \<longrightarrow> u_email u' = u_email u) \<and>
            (\<not> truthy (ub_name b) \<longrightarrow> u_name u' = u_name u) \<and>
            (\<not> truthy (ub_role b) \<longrightarrow> u_role u' = u_role u)))"
  using users_put_others [of i ev d caller b] users_put_expenses [of ev d caller i b]
    users_put_target [of d i u ev caller b]
  by blast

theorem users_put_frame_witness:
  "map_option u_name (user_findUnique_id demo_db ''u3'') = Some ''Jane Employee'' \<and>
   \<not> truthy None \<and>
   fst (users_put demo_env demo_db demo_admin ''u3''
      \<lparr>ub_email = None, ub_password = None, ub_name = Some ''Jane Doe'', ub_role = None\<rparr>) =
     Sent (Response 200 (User_message ''User updated successfully''
       \<lparr>up_id = ''u3'', up_email = ''jane@example.com'', up_name = ''Jane Doe'',
        up_role = EMPLOYEE, up_createdAt = 3\<rparr>)) \<and>
   user_findUnique_id (snd (users_put demo_env demo_db demo_admin ''u3''
      \<lparr>ub_email = None, ub_password = None, ub_name = Some ''Jane Doe'', ub_role = None\<rparr>)) ''u3'' =
     Some \<lparr>u_id = ''u3'', u_email = ''jane@example.com'', u_password = ''hash:secret99'',
           u_name = ''Jane Doe'', u_role = EMPLOYEE, u_createdAt = 3\<rparr> \<and>
   filter (\<lambda>u. u_id u \<noteq> ''u3'') (users (snd (users_put demo_env demo_db demo_admin ''u3''
      \<lparr>ub_email = None, ub_password = None, ub_name = Some ''Jane Doe'', ub_role = None\<rparr>))) =
     filter (\<lambda>u. u_id u \<noteq> ''u3'') demo_users"
proof -
  let ?b = "\<lparr>ub_email = None, ub_password = None, ub_name = Some ''Jane Doe'', ub_role = None\<rparr>"
  let ?u3 = "\<lparr>u_id = ''u3'', u_email = ''jane@example.com'', u_password = ''hash:secret99'',
       u_name = ''Jane Employee'', u_role = EMPLOYEE, u_createdAt = 3\<rparr>"
  let ?d' = "snd (users_put demo_env demo_db demo_admin ''u3'' ?b)"
  have find: "user_findUnique_id demo_db ''u3'' = Some ?u3"
    by (simp add: user_findUnique_id_def demo_db_def demo_users_def)
  have absent: "\<not> truthy None"
    by (simp add: truthy_def)
  have issues: "userUpdateSchema_issues demo_env ?b = []"
    by (simp add: userUpdateSchema_issues_def optional_ok_def)
  have sent: "fst (users_put demo_env demo_db demo_admin ''u3'' ?b) =
     Sent (Response 200 (User_message ''User updated successfully''
       \<lparr>up_id = ''u3'', up_email = ''jane@example.com'', up_name = ''Jane Doe'',
        up_role = EMPLOYEE, up_createdAt = 3\<rparr>))"
    by (simp add: users_put_def requireAdmin_def demo_admin_def issues demo_env_calls find
        truthy_def or_empty_def Let_def apply_userUpdate_def public_of_def)
  have new_name: "map_option u_name (user_findUnique_id ?d' ''u3'') = Some ''Jane Doe''"
    by (simp add: users_put_def requireAdmin_def demo_admin_def issues demo_env_calls find
        truthy_def or_empty_def Let_def apply_userUpdate_def user_update_def
        user_findUnique_id_def auditLog_create_def demo_db_def demo_users_def)
  note main = users_put_frame [of "''u3''" demo_env demo_db demo_admin ?b ?u3]
  from main find absent obtain u' where u': "user_findUnique_id ?d' ''u3'' = Some u'"
    and kept: "u_id u' = ''u3''" "u_createdAt u' = 3" "u_password u' = ''hash:secret99''"
      "u_email u' = ''jane@example.com''" "u_role u' = EMPLOYEE"
    by auto
  from u' new_name have "u_name u' = ''Jane Doe''"
    by simp
  with kept have "u' = \<lparr>u_id = ''u3'', u_email = ''jane@example.com'',
      u_password = ''hash:secret99'', u_name = ''Jane Doe'', u_role = EMPLOYEE, u_createdAt = 3\<rparr>"
    by (cases u') simp
  with u' have target: "user_findUnique_id ?d' ''u3'' =
     Some \<lparr>u_id = ''u3'', u_email = ''jane@example.com'', u_password = ''hash:secret99'',
           u_name = ''Jane Doe'', u_role = EMPLOYEE, u_createdAt = 3\<rparr>"
    by simp
  from main have others: "filter (\<lambda>u. u_id u \<noteq> ''u3'') (users ?d') =
     filter (\<lambda>u. u_id u \<noteq> ''u3'') demo_users"
    by (simp add: demo_db_def)
  from find absent sent target others show ?thesis
    by simp
qed

end
